theory Spec2Isabelle
  imports Main
begin

section \<open>Bytes, errors and the pieces of the Go library the code calls\<close>

text \<open>
  A Go \<open>[]byte\<close> and a Go \<open>string\<close> are both sequences of bytes, and the code converts
  freely between them; both are lists of \<open>char\<close> here (a \<open>char\<close> is one byte). A nil
  slice and an empty slice are both the empty list.
\<close>

type_synonym bytes = string

text \<open>Errors returned as values, one constructor for each error the code constructs or
  receives from the library.\<close>

datatype error =
    ErrNotConfiguredForSigning
  | ErrInsecureNeedsNone
  | ErrCannotCreateFromKeyType
  | ErrEmptyKey
  | ErrNoAlgorithm
  | ErrUnexpectedAlgorithm
  | ErrNoCompatibleHash
  | ErrCannotGenerateHash
  | ErrParametersForAlgorithm
  | ErrKeyDoesNotMatch
  | ErrSignatureLengthInvalid nat nat
  | ErrPayloadEmpty
  | ErrPlaintextEmpty
  | ErrSignatureEmpty
  | ErrTokenDots
  | ErrIllegalBase64URL
  | CorruptInputError
  | ErrSyntax
  | ErrRange
  | JSONSyntaxError
  | JSONOtherError
  | ErrFromSigning error
  | ErrFromVerification error
  | ErrPrimitive

text \<open>Run-time panics are not error values: a call that panics returns nothing.\<close>

datatype panic = NilPointerDereference | IndexOutOfRange | SliceBoundsOutOfRange

datatype 'a outcome = Returns 'a | Panics panic

subsection \<open>strings.Split and strings.Replace on a one-byte separator\<close>

text \<open>\<open>strings.Split(s, sep)\<close> for a separator of one byte: the pieces between the
  separators, always at least one piece.\<close>

fun strings_Split :: "string \<Rightarrow> char \<Rightarrow> string list" where
  "strings_Split [] sep = [[]]"
| "strings_Split (c # cs) sep =
     (if c = sep then [] # strings_Split cs sep
      else (case strings_Split cs sep of
              p # ps \<Rightarrow> (c # p) # ps
            | [] \<Rightarrow> [[c]]))"

text \<open>\<open>strings.Replace(s, old, new, -1)\<close> for one-byte \<open>old\<close> and \<open>new\<close>.\<close>

definition strings_Replace :: "string \<Rightarrow> char \<Rightarrow> char \<Rightarrow> string" where
  "strings_Replace s old new = map (\<lambda>c. if c = old then new else c) s"

subsection \<open>encoding/base64, StdEncoding (RFC 4648, padded, not strict)\<close>

definition encodeStd :: string where
  "encodeStd = ''ABCDEFGHIJKLMNOPQRSTUVWXYZabcdefghijklmnopqrstuvwxyz0123456789+/''"

definition decodeMap :: "char \<Rightarrow> nat option" where
  "decodeMap = map_of (zip encodeStd [0..<64])"

fun EncodeToString :: "bytes \<Rightarrow> string" where
  "EncodeToString (a # b # c # rest) =
     [encodeStd ! (of_char a div 4),
      encodeStd ! ((of_char a mod 4) * 16 + of_char b div 16),
      encodeStd ! ((of_char b mod 16) * 4 + of_char c div 64),
      encodeStd ! (of_char c mod 64)] @ EncodeToString rest"
| "EncodeToString [a, b] =
     [encodeStd ! (of_char a div 4),
      encodeStd ! ((of_char a mod 4) * 16 + of_char b div 16),
      encodeStd ! ((of_char b mod 16) * 4),
      CHR ''='']"
| "EncodeToString [a] =
     [encodeStd ! (of_char a div 4),
      encodeStd ! ((of_char a mod 4) * 16),
      CHR ''='', CHR ''='']"
| "EncodeToString [] = []"

text \<open>The decoder works on quanta of four characters. A padded quantum must be the last
  one; the bits of a padded quantum that belong to no byte are not checked.\<close>

fun decodeQuanta :: "string \<Rightarrow> error + bytes" where
  "decodeQuanta [] = Inr []"
| "decodeQuanta (c0 # c1 # c2 # c3 # rest) =
     (case decodeMap c0 of
        None \<Rightarrow> Inl CorruptInputError
      | Some v0 \<Rightarrow>
     (case decodeMap c1 of
        None \<Rightarrow> Inl CorruptInputError
      | Some v1 \<Rightarrow>
     (case decodeMap c2 of
        None \<Rightarrow>
          (if c2 = CHR ''='' \<and> c3 = CHR ''='' \<and> rest = []
           then Inr [char_of (v0 * 4 + v1 div 16)]
           else Inl CorruptInputError)
      | Some v2 \<Rightarrow>
     (case decodeMap c3 of
        None \<Rightarrow>
          (if c3 = CHR ''='' \<and> rest = []
           then Inr [char_of (v0 * 4 + v1 div 16), char_of ((v1 mod 16) * 16 + v2 div 4)]
           else Inl CorruptInputError)
      | Some v3 \<Rightarrow>
          (case decodeQuanta rest of
             Inl e \<Rightarrow> Inl e
           | Inr out \<Rightarrow>
               Inr (char_of (v0 * 4 + v1 div 16) # char_of ((v1 mod 16) * 16 + v2 div 4)
                    # char_of ((v2 mod 4) * 64 + v3) # out))))))"
| "decodeQuanta _ = Inl CorruptInputError"

text \<open>\<open>DecodeString\<close> ignores carriage returns and line feeds wherever they stand.\<close>

definition DecodeString :: "string \<Rightarrow> error + bytes" where
  "DecodeString s = decodeQuanta (filter (\<lambda>c. c \<noteq> CHR 0x0D \<and> c \<noteq> CHR 0x0A) s)"

section \<open>Codec utilities\<close>

definition Base64URLEncode :: "bytes \<Rightarrow> string" where
  "Base64URLEncode arg =
     (let s = EncodeToString arg;
          s = (case strings_Split s (CHR ''='') of p # _ \<Rightarrow> p | [] \<Rightarrow> []);
          s = strings_Replace s (CHR ''+'') (CHR ''-'');
          s = strings_Replace s (CHR ''/'') (CHR ''_'')
      in s)"

definition Base64URLDecode :: "string \<Rightarrow> error + bytes" where
  "Base64URLDecode arg0 =
     (let arg = strings_Replace arg0 (CHR ''-'') (CHR ''+'');
          arg = strings_Replace arg (CHR ''_'') (CHR ''/'')
      in if length arg mod 4 = 0 then DecodeString arg
         else if length arg mod 4 = 2 then DecodeString (arg @ ''=='')
         else if length arg mod 4 = 3 then DecodeString (arg @ ''='')
         else Inl ErrIllegalBase64URL)"

definition appendWithDot :: "bytes \<Rightarrow> bytes \<Rightarrow> bytes" where
  "appendWithDot first second = first @ ''.'' @ second"

section \<open>More of the Go library\<close>

subsection \<open>strconv.ParseInt(s, 10, 64)\<close>

definition digit_val :: "char \<Rightarrow> int option" where
  "digit_val c =
     (if 48 \<le> (of_char c :: int) \<and> (of_char c :: int) \<le> 57
      then Some (of_char c - 48) else None)"

text \<open>The digit loop of \<open>ParseUint\<close>: a byte that is no decimal digit is a syntax
  error, a value that leaves 64 bits is a range error.\<close>

fun parseUintDigits :: "int \<Rightarrow> string \<Rightarrow> error + int" where
  "parseUintDigits n [] = Inr n"
| "parseUintDigits n (c # cs) =
     (case digit_val c of
        None \<Rightarrow> Inl ErrSyntax
      | Some d \<Rightarrow>
          if 18446744073709551616 \<le> n * 10 + d then Inl ErrRange
          else parseUintDigits (n * 10 + d) cs)"

text \<open>An optional sign, then the digits; the magnitude must fit a signed 64-bit
  integer (\<open>9223372036854775808\<close> is \<open>2^63\<close>).\<close>

definition strconv_ParseInt :: "string \<Rightarrow> error + int" where
  "strconv_ParseInt s =
     (case s of
        [] \<Rightarrow> Inl ErrSyntax
      | c # cs \<Rightarrow>
          (let neg = (c = CHR ''-'');
               ds = (if c = CHR ''+'' \<or> c = CHR ''-'' then cs else s)
           in if ds = [] then Inl ErrSyntax
              else (case parseUintDigits 0 ds of
                      Inl e \<Rightarrow> Inl e
                    | Inr un \<Rightarrow>
                        if \<not> neg \<and> 9223372036854775808 \<le> un then Inl ErrRange
                        else if neg \<and> 9223372036854775808 < un then Inl ErrRange
                        else Inr (if neg then - un else un))))"

subsection \<open>time\<close>

text \<open>
  The \<open>time\<close> package is modelled by its documented contract on exact instants: a
  \<open>Time\<close> is an instant, counted in nanoseconds from the Unix epoch, a \<open>Duration\<close> is a
  number of nanoseconds, \<open>Add\<close> adds, \<open>Before\<close> and \<open>After\<close> compare instants. The zero
  \<open>Time\<close> is the first instant of year 1.
\<close>

type_synonym Time = int
type_synonym Duration = int

definition time_Unix :: "int \<Rightarrow> int \<Rightarrow> Time" where
  "time_Unix sec nsec = sec * 1000000000 + nsec"

definition Time_Add :: "Time \<Rightarrow> Duration \<Rightarrow> Time" where
  "Time_Add t d = t + d"

definition Time_Before :: "Time \<Rightarrow> Time \<Rightarrow> bool" where
  "Time_Before t u = (t < u)"

definition Time_After :: "Time \<Rightarrow> Time \<Rightarrow> bool" where
  "Time_After t u = (u < t)"

definition Time_zero :: Time where
  "Time_zero = time_Unix (- 62135596800) 0"

subsection \<open>math/big: big-endian bytes of a natural number\<close>

text \<open>\<open>(*big.Int).Bytes\<close>: the shortest big-endian representation (empty for zero).\<close>

function big_Bytes :: "nat \<Rightarrow> bytes" where
  "big_Bytes n = (if n = 0 then [] else big_Bytes (n div 256) @ [char_of (n mod 256)])"
  by pat_completeness auto
termination
  by (relation "measure (\<lambda>n. n)") auto

text \<open>\<open>(*big.Int).SetBytes\<close>: the bytes read as a big-endian unsigned integer.\<close>

definition big_SetBytes :: "bytes \<Rightarrow> nat" where
  "big_SetBytes buf = foldl (\<lambda>acc b. acc * 256 + of_char b) 0 buf"

subsection \<open>crypto/elliptic, the named curves\<close>

datatype Curve = P224 | P256 | P384 | P521

fun Params_Name :: "Curve \<Rightarrow> string" where
  "Params_Name P224 = ''P-224''"
| "Params_Name P256 = ''P-256''"
| "Params_Name P384 = ''P-384''"
| "Params_Name P521 = ''P-521''"

fun Params_BitSize :: "Curve \<Rightarrow> nat" where
  "Params_BitSize P224 = 224"
| "Params_BitSize P256 = 256"
| "Params_BitSize P384 = 384"
| "Params_BitSize P521 = 521"

subsection \<open>Keys\<close>

record ecdsa_PublicKey =
  ec_Curve :: Curve
  ec_X :: nat
  ec_Y :: nat

record ecdsa_PrivateKey =
  ec_PublicKey :: ecdsa_PublicKey
  ec_D :: nat

record rsa_PublicKey =
  rsa_N :: nat
  rsa_E :: nat

record rsa_PrivateKey =
  rsa_PublicKey :: rsa_PublicKey
  rsa_D :: nat

type_synonym ed25519_PublicKey = bytes
type_synonym ed25519_PrivateKey = bytes

subsection \<open>The platform's cryptographic primitives\<close>

text \<open>
  The primitives are supplied by the platform and are a parameter of everything below.
  A signing primitive that draws random numbers is the function of one run.
\<close>

datatype crypto_Hash = SHA256 | SHA384 | SHA512

record platform =
  hash_Sum :: "crypto_Hash \<Rightarrow> bytes \<Rightarrow> bytes"
  hmac_Sum :: "crypto_Hash \<Rightarrow> bytes \<Rightarrow> bytes \<Rightarrow> bytes"
  rsa_SignPKCS1v15 :: "rsa_PrivateKey \<Rightarrow> crypto_Hash \<Rightarrow> bytes \<Rightarrow> error + bytes"
  rsa_SignPSS :: "rsa_PrivateKey \<Rightarrow> crypto_Hash \<Rightarrow> bytes \<Rightarrow> error + bytes"
  rsa_VerifyPKCS1v15 :: "rsa_PublicKey \<Rightarrow> crypto_Hash \<Rightarrow> bytes \<Rightarrow> bytes \<Rightarrow> error option"
  rsa_VerifyPSS :: "rsa_PublicKey \<Rightarrow> crypto_Hash \<Rightarrow> bytes \<Rightarrow> bytes \<Rightarrow> error option"
  ecdsa_Sign :: "ecdsa_PrivateKey \<Rightarrow> bytes \<Rightarrow> error + (nat \<times> nat)"
  ecdsa_Verify :: "ecdsa_PublicKey \<Rightarrow> bytes \<Rightarrow> nat \<Rightarrow> nat \<Rightarrow> bool"
  ed25519_Sign :: "ed25519_PrivateKey \<Rightarrow> bytes \<Rightarrow> bytes"
  ed25519_Verify :: "ed25519_PublicKey \<Rightarrow> bytes \<Rightarrow> bytes \<Rightarrow> bool"
  ed25519_Public :: "ed25519_PrivateKey \<Rightarrow> ed25519_PublicKey"

section \<open>Algorithm catalog\<close>

type_synonym Algorithm = string

definition HS256 :: Algorithm where "HS256 = ''HS256''"
definition HS384 :: Algorithm where "HS384 = ''HS384''"
definition HS512 :: Algorithm where "HS512 = ''HS512''"
definition RS256 :: Algorithm where "RS256 = ''RS256''"
definition RS384 :: Algorithm where "RS384 = ''RS384''"
definition RS512 :: Algorithm where "RS512 = ''RS512''"
definition ES256 :: Algorithm where "ES256 = ''ES256''"
definition ES384 :: Algorithm where "ES384 = ''ES384''"
definition ES512 :: Algorithm where "ES512 = ''ES512''"
definition PS256 :: Algorithm where "PS256 = ''PS256''"
definition PS384 :: Algorithm where "PS384 = ''PS384''"
definition PS512 :: Algorithm where "PS512 = ''PS512''"
definition EdDSA :: Algorithm where "EdDSA = ''EdDSA''"
definition None_alg :: Algorithm where "None_alg = ''none''"

section \<open>Hash dispatch\<close>

definition GetHash :: "platform \<Rightarrow> Algorithm \<Rightarrow> bytes \<Rightarrow> error + bytes" where
  "GetHash plat algorithm plaintext =
     (if algorithm = RS256 \<or> algorithm = PS256 \<or> algorithm = ES256
        then Inr (hash_Sum plat SHA256 plaintext)
      else if algorithm = RS384 \<or> algorithm = PS384 \<or> algorithm = ES384
        then Inr (hash_Sum plat SHA384 plaintext)
      else if algorithm = RS512 \<or> algorithm = PS512 \<or> algorithm = ES512 \<or> algorithm = EdDSA
        then Inr (hash_Sum plat SHA512 plaintext)
      else Inl ErrCannotGenerateHash)"

section \<open>HMAC engine\<close>

record HMACSignerVerifier =
  hmac_algorithm :: Algorithm
  hmac_key :: bytes

definition InitHMACSignerVerifier :: "Algorithm \<Rightarrow> bytes \<Rightarrow> error + HMACSignerVerifier" where
  "InitHMACSignerVerifier alg key =
     (if length key = 0 then Inl ErrEmptyKey
      else if alg = [] then Inl ErrNoAlgorithm
      else if HS256 \<noteq> alg \<and> HS384 \<noteq> alg \<and> HS512 \<noteq> alg then Inl ErrUnexpectedAlgorithm
      else Inr \<lparr>hmac_algorithm = alg, hmac_key = key\<rparr>)"

text \<open>\<open>initHash\<close> builds the keyed hash; the model returns which digest it is keyed over.\<close>

definition HMACSignerVerifier_initHash :: "HMACSignerVerifier \<Rightarrow> error + crypto_Hash" where
  "HMACSignerVerifier_initHash sv =
     (if hmac_algorithm sv = HS256 then Inr SHA256
      else if hmac_algorithm sv = HS384 then Inr SHA384
      else if hmac_algorithm sv = HS512 then Inr SHA512
      else Inl ErrCannotGenerateHash)"

definition HMACSignerVerifier_Sign ::
    "platform \<Rightarrow> HMACSignerVerifier \<Rightarrow> bytes \<Rightarrow> error + bytes" where
  "HMACSignerVerifier_Sign plat sv plaintext =
     (if length plaintext = 0 then Inl ErrPayloadEmpty
      else (case HMACSignerVerifier_initHash sv of
              Inl e \<Rightarrow> Inl e
            | Inr h \<Rightarrow> Inr (hmac_Sum plat h (hmac_key sv) plaintext)))"

definition HMACSignerVerifier_Verify ::
    "platform \<Rightarrow> HMACSignerVerifier \<Rightarrow> bytes \<Rightarrow> bytes \<Rightarrow> bool \<times> error option" where
  "HMACSignerVerifier_Verify plat sv plaintext signature =
     (if length plaintext = 0 then (False, Some ErrPlaintextEmpty)
      else if length signature = 0 then (False, Some ErrSignatureEmpty)
      else (case HMACSignerVerifier_Sign plat sv plaintext of
              Inl e \<Rightarrow> (False, Some e)
            | Inr output \<Rightarrow> (signature = output, None)))"

section \<open>RSA engine\<close>

record RSASigner =
  rsas_algorithm :: Algorithm
  rsas_hash :: crypto_Hash
  rsas_prvKey :: rsa_PrivateKey

record RSAVerifier =
  rsav_algorithm :: Algorithm
  rsav_hash :: crypto_Hash
  rsav_pubKey :: rsa_PublicKey

definition getHashAlgorithm :: "Algorithm \<Rightarrow> error + crypto_Hash" where
  "getHashAlgorithm alg =
     (if alg = RS256 \<or> alg = PS256 then Inr SHA256
      else if alg = RS384 \<or> alg = PS384 then Inr SHA384
      else if alg = RS512 \<or> alg = PS512 then Inr SHA512
      else Inl ErrNoCompatibleHash)"

definition InitRSASigner :: "Algorithm \<Rightarrow> rsa_PrivateKey option \<Rightarrow> error + RSASigner" where
  "InitRSASigner alg key =
     (case key of
        None \<Rightarrow> Inl ErrEmptyKey
      | Some k \<Rightarrow>
          if alg = [] then Inl ErrNoAlgorithm
          else if RS256 \<noteq> alg \<and> RS384 \<noteq> alg \<and> RS512 \<noteq> alg \<and>
                  PS256 \<noteq> alg \<and> PS384 \<noteq> alg \<and> PS512 \<noteq> alg
            then Inl ErrUnexpectedAlgorithm
          else (case getHashAlgorithm alg of
                  Inl e \<Rightarrow> Inl e
                | Inr hashFunc \<Rightarrow>
                    Inr \<lparr>rsas_algorithm = alg, rsas_hash = hashFunc, rsas_prvKey = k\<rparr>))"

text \<open>When the algorithm is in neither family the \<open>switch\<close> runs no case: the signature
  stays nil and so does the error.\<close>

definition RSASigner_Sign :: "platform \<Rightarrow> RSASigner \<Rightarrow> bytes \<Rightarrow> error + bytes" where
  "RSASigner_Sign plat sv plaintext =
     (case GetHash plat (rsas_algorithm sv) plaintext of
        Inl e \<Rightarrow> Inl e
      | Inr hash \<Rightarrow>
          (let res =
             (if rsas_algorithm sv = RS256 \<or> rsas_algorithm sv = RS384 \<or> rsas_algorithm sv = RS512
                then rsa_SignPKCS1v15 plat (rsas_prvKey sv) (rsas_hash sv) hash
              else if rsas_algorithm sv = PS256 \<or> rsas_algorithm sv = PS384 \<or> rsas_algorithm sv = PS512
                then rsa_SignPSS plat (rsas_prvKey sv) (rsas_hash sv) hash
              else Inr [])
           in case res of
                Inl err \<Rightarrow> Inl (ErrFromSigning err)
              | Inr signature \<Rightarrow> Inr signature))"

definition InitRSAVerifier :: "Algorithm \<Rightarrow> rsa_PublicKey option \<Rightarrow> error + RSAVerifier" where
  "InitRSAVerifier alg key =
     (case key of
        None \<Rightarrow> Inl ErrEmptyKey
      | Some k \<Rightarrow>
          if alg = [] then Inl ErrNoAlgorithm
          else (case getHashAlgorithm alg of
                  Inl e \<Rightarrow> Inl e
                | Inr hashFunc \<Rightarrow>
                    Inr \<lparr>rsav_algorithm = alg, rsav_hash = hashFunc, rsav_pubKey = k\<rparr>))"

definition RSAVerifier_Verify ::
    "platform \<Rightarrow> RSAVerifier \<Rightarrow> bytes \<Rightarrow> bytes \<Rightarrow> bool \<times> error option" where
  "RSAVerifier_Verify plat sv plaintext signature =
     (case GetHash plat (rsav_algorithm sv) plaintext of
        Inl e \<Rightarrow> (False, Some e)
      | Inr hash \<Rightarrow>
          (let err =
             (if rsav_algorithm sv = RS256 \<or> rsav_algorithm sv = RS384 \<or> rsav_algorithm sv = RS512
                then rsa_VerifyPKCS1v15 plat (rsav_pubKey sv) (rsav_hash sv) hash signature
              else if rsav_algorithm sv = PS256 \<or> rsav_algorithm sv = PS384 \<or> rsav_algorithm sv = PS512
                then rsa_VerifyPSS plat (rsav_pubKey sv) (rsav_hash sv) hash signature
              else None)
           in case err of
                Some e \<Rightarrow> (False, Some (ErrFromVerification e))
              | None \<Rightarrow> (True, None)))"

section \<open>ECDSA engine\<close>

record ECDSASigner =
  ecs_algorithm :: Algorithm
  ecs_prvKey :: ecdsa_PrivateKey

definition getExpectedKeyParameters :: "Algorithm \<Rightarrow> error + (nat \<times> Curve)" where
  "getExpectedKeyParameters alg =
     (if alg = ES256 then Inr (32, P256)
      else if alg = ES384 then Inr (48, P384)
      else if alg = ES512 then Inr (66, P521)
      else Inl ErrParametersForAlgorithm)"

definition validateKeyMatchesAlgorithm :: "Algorithm \<Rightarrow> ecdsa_PrivateKey \<Rightarrow> error option" where
  "validateKeyMatchesAlgorithm alg key =
     (case getExpectedKeyParameters alg of
        Inl err \<Rightarrow> Some err
      | Inr (expectedBitSize, expectedCurve) \<Rightarrow>
          if Params_Name (ec_Curve (ec_PublicKey key)) \<noteq> Params_Name expectedCurve
          then Some ErrKeyDoesNotMatch
          else None)"

definition InitECDSASigner :: "Algorithm \<Rightarrow> ecdsa_PrivateKey option \<Rightarrow> error + ECDSASigner" where
  "InitECDSASigner alg key =
     (case key of
        None \<Rightarrow> Inl ErrEmptyKey
      | Some k \<Rightarrow>
          if alg = [] then Inl ErrNoAlgorithm
          else (case validateKeyMatchesAlgorithm alg k of
                  Some keyValidationErr \<Rightarrow> Inl keyValidationErr
                | None \<Rightarrow> Inr \<lparr>ecs_algorithm = alg, ecs_prvKey = k\<rparr>))"

definition getSignatureLength :: "Curve \<Rightarrow> nat" where
  "getSignatureLength curve =
     (let keySize = Params_BitSize curve;
          adjustedSize = keySize div 8
      in if adjustedSize mod 8 > 0 then adjustedSize + 1 else adjustedSize)"

text \<open>\<open>make\<close> gives \<open>keySize\<close> zero bytes and \<open>copy\<close> writes the value's bytes at the end.
  The slice expression panics when the value has more than \<open>keySize\<close> bytes.\<close>

definition padAndJoin :: "ECDSASigner \<Rightarrow> nat \<Rightarrow> nat \<Rightarrow> bytes outcome" where
  "padAndJoin sv r s =
     (let keySize = getSignatureLength (ec_Curve (ec_PublicKey (ecs_prvKey sv)))
      in if keySize < length (big_Bytes r) then Panics SliceBoundsOutOfRange
         else (let rBytesPadded =
                     replicate (keySize - length (big_Bytes r)) (CHR 0x00) @ big_Bytes r
               in if keySize < length (big_Bytes s) then Panics SliceBoundsOutOfRange
                  else (let sBytesPadded =
                              replicate (keySize - length (big_Bytes s)) (CHR 0x00) @ big_Bytes s
                        in Returns (rBytesPadded @ sBytesPadded))))"

definition ECDSASigner_Sign :: "platform \<Rightarrow> ECDSASigner \<Rightarrow> bytes \<Rightarrow> (error + bytes) outcome" where
  "ECDSASigner_Sign plat sv plaintext =
     (case GetHash plat (ecs_algorithm sv) plaintext of
        Inl err \<Rightarrow> Returns (Inl err)
      | Inr hash \<Rightarrow>
          (case ecdsa_Sign plat (ecs_prvKey sv) hash of
             Inl err \<Rightarrow> Returns (Inl err)
           | Inr (r, s) \<Rightarrow>
               (case padAndJoin sv r s of
                  Panics p \<Rightarrow> Panics p
                | Returns sig \<Rightarrow> Returns (Inr sig))))"

record ECDSAVerifier =
  ecv_algorithm :: Algorithm
  ecv_pubKey :: ecdsa_PublicKey

definition InitECDSAVerifier :: "Algorithm \<Rightarrow> ecdsa_PublicKey option \<Rightarrow> error + ECDSAVerifier" where
  "InitECDSAVerifier alg key =
     (case key of
        None \<Rightarrow> Inl ErrEmptyKey
      | Some k \<Rightarrow>
          if alg = [] then Inl ErrNoAlgorithm
          else if ES256 \<noteq> alg \<and> ES384 \<noteq> alg \<and> ES512 \<noteq> alg then Inl ErrUnexpectedAlgorithm
          else Inr \<lparr>ecv_algorithm = alg, ecv_pubKey = k\<rparr>)"

definition ECDSAVerifier_Verify ::
    "platform \<Rightarrow> ECDSAVerifier \<Rightarrow> bytes \<Rightarrow> bytes \<Rightarrow> bool \<times> error option" where
  "ECDSAVerifier_Verify plat sv plaintext signature =
     (case GetHash plat (ecv_algorithm sv) plaintext of
        Inl err \<Rightarrow> (False, Some err)
      | Inr hash \<Rightarrow>
          (let rsSplitLen = getSignatureLength (ec_Curve (ecv_pubKey sv))
           in if length signature \<noteq> rsSplitLen * 2
              then (False, Some (ErrSignatureLengthInvalid (rsSplitLen * 2) (length signature)))
              else (ecdsa_Verify plat (ecv_pubKey sv) hash
                      (big_SetBytes (take rsSplitLen signature))
                      (big_SetBytes (drop rsSplitLen signature)), None)))"

section \<open>EdDSA engine\<close>

record EdDSASigner =
  eds_algorithm :: Algorithm
  eds_prvKey :: ed25519_PrivateKey

definition InitEdDSASigner :: "Algorithm \<Rightarrow> ed25519_PrivateKey option \<Rightarrow> error + EdDSASigner" where
  "InitEdDSASigner alg key =
     (case key of
        None \<Rightarrow> Inl ErrEmptyKey
      | Some k \<Rightarrow>
          if alg = [] then Inl ErrNoAlgorithm
          else Inr \<lparr>eds_algorithm = alg, eds_prvKey = k\<rparr>)"

definition EdDSASigner_Sign :: "platform \<Rightarrow> EdDSASigner \<Rightarrow> bytes \<Rightarrow> error + bytes" where
  "EdDSASigner_Sign plat sv plaintext = Inr (ed25519_Sign plat (eds_prvKey sv) plaintext)"

record EdDSAVerifier =
  edv_algorithm :: Algorithm
  edv_pubKey :: ed25519_PublicKey

definition InitEdDSAVerifier :: "Algorithm \<Rightarrow> ed25519_PublicKey option \<Rightarrow> error + EdDSAVerifier" where
  "InitEdDSAVerifier alg key =
     (case key of
        None \<Rightarrow> Inl ErrEmptyKey
      | Some k \<Rightarrow>
          if alg = [] then Inl ErrNoAlgorithm
          else if EdDSA \<noteq> alg then Inl ErrUnexpectedAlgorithm
          else Inr \<lparr>edv_algorithm = alg, edv_pubKey = k\<rparr>)"

definition EdDSAVerifier_Verify ::
    "platform \<Rightarrow> EdDSAVerifier \<Rightarrow> bytes \<Rightarrow> bytes \<Rightarrow> bool \<times> error option" where
  "EdDSAVerifier_Verify plat sv plaintext signature =
     (ed25519_Verify plat (edv_pubKey sv) plaintext signature, None)"

section \<open>None engine\<close>

record NoneSignerVerifier =
  none_algorithm :: Algorithm
  none_key :: bytes

definition InitNoneSignerVerifier :: "Algorithm \<Rightarrow> error + NoneSignerVerifier" where
  "InitNoneSignerVerifier alg =
     (if None_alg \<noteq> alg then Inl ErrUnexpectedAlgorithm
      else Inr \<lparr>none_algorithm = [], none_key = []\<rparr>)"

definition NoneSignerVerifier_Sign :: "NoneSignerVerifier \<Rightarrow> bytes \<Rightarrow> error + bytes" where
  "NoneSignerVerifier_Sign sv plaintext = Inr []"

definition NoneSignerVerifier_Verify ::
    "NoneSignerVerifier \<Rightarrow> bytes \<Rightarrow> bytes \<Rightarrow> bool \<times> error option" where
  "NoneSignerVerifier_Verify sv plaintext signature = (True, None)"

section \<open>The signer and verifier interfaces\<close>

text \<open>A value of interface type \<open>TokenSigner\<close> or \<open>TokenVerifier\<close> is one of the
  engines of this package; a call through the interface runs that engine's method.\<close>

datatype TokenSigner =
    SignerHMAC HMACSignerVerifier
  | SignerRSA RSASigner
  | SignerECDSA ECDSASigner
  | SignerEdDSA EdDSASigner
  | SignerNone NoneSignerVerifier

datatype TokenVerifier =
    VerifierHMAC HMACSignerVerifier
  | VerifierRSA RSAVerifier
  | VerifierECDSA ECDSAVerifier
  | VerifierEdDSA EdDSAVerifier
  | VerifierNone NoneSignerVerifier

fun Sign :: "platform \<Rightarrow> TokenSigner \<Rightarrow> bytes \<Rightarrow> (error + bytes) outcome" where
  "Sign plat (SignerHMAC sv) plaintext = Returns (HMACSignerVerifier_Sign plat sv plaintext)"
| "Sign plat (SignerRSA sv) plaintext = Returns (RSASigner_Sign plat sv plaintext)"
| "Sign plat (SignerECDSA sv) plaintext = ECDSASigner_Sign plat sv plaintext"
| "Sign plat (SignerEdDSA sv) plaintext = Returns (EdDSASigner_Sign plat sv plaintext)"
| "Sign plat (SignerNone sv) plaintext = Returns (NoneSignerVerifier_Sign sv plaintext)"

fun Verify :: "platform \<Rightarrow> TokenVerifier \<Rightarrow> bytes \<Rightarrow> bytes \<Rightarrow> bool \<times> error option" where
  "Verify plat (VerifierHMAC sv) plaintext signature =
     HMACSignerVerifier_Verify plat sv plaintext signature"
| "Verify plat (VerifierRSA sv) plaintext signature =
     RSAVerifier_Verify plat sv plaintext signature"
| "Verify plat (VerifierECDSA sv) plaintext signature =
     ECDSAVerifier_Verify plat sv plaintext signature"
| "Verify plat (VerifierEdDSA sv) plaintext signature =
     EdDSAVerifier_Verify plat sv plaintext signature"
| "Verify plat (VerifierNone sv) plaintext signature =
     NoneSignerVerifier_Verify sv plaintext signature"

section \<open>Header, claims and token\<close>

record Header =
  Algorithm :: string
  JWKSetURL :: string
  JWK :: string
  KeyID :: string
  Type :: string
  ContentType :: string

record Claims =
  Issuer :: string
  Subject :: string
  Audience :: string
  Expiration :: string
  NotBefore :: string
  IssuedAt :: string
  JWTID :: string

record ValidationClaims =
  vc_JWTID :: "string list"
  vc_Issuer :: "string list"
  vc_Subject :: "string list"
  vc_Audience :: "string list"
  vc_Expiration :: Time
  vc_ExpirationLeeway :: Duration
  vc_NotBefore :: Time
  vc_NotBeforeLeeway :: Duration

record Token =
  Alg :: Algorithm
  RegisteredHeader :: Header
  RegisteredClaims :: Claims
  RawToken :: bytes
  RawHeader :: bytes
  RawBody :: bytes
  RawSignature :: bytes
  DecodedHeader :: bytes
  DecodedBody :: bytes
  DecodedSignature :: bytes
  signatureValid :: bool
  claimsValid :: bool

definition Header_zero :: Header where
  "Header_zero = \<lparr>Algorithm = [], JWKSetURL = [], JWK = [], KeyID = [], Type = [],
     ContentType = []\<rparr>"

definition Claims_zero :: Claims where
  "Claims_zero = \<lparr>Issuer = [], Subject = [], Audience = [], Expiration = [], NotBefore = [],
     IssuedAt = [], JWTID = []\<rparr>"

subsection \<open>encoding/json\<close>

text \<open>
  The JSON codec is the library's and is a parameter: \<open>json_Marshal\<close> serialises a value
  handed over as \<open>interface{}\<close>, the two \<open>Unmarshal\<close> functions decode into a fresh
  \<open>Header\<close> and a fresh \<open>Claims\<close>.
\<close>

record 'v json =
  json_Marshal :: "'v \<Rightarrow> error + bytes"
  json_Unmarshal_Header :: "bytes \<Rightarrow> error + Header"
  json_Unmarshal_Claims :: "bytes \<Rightarrow> error + Claims"

definition GetHeader :: "'v json \<Rightarrow> Token \<Rightarrow> error + Header" where
  "GetHeader js token = json_Unmarshal_Header js (DecodedHeader token)"

definition GetClaims :: "'v json \<Rightarrow> Token \<Rightarrow> error + Claims" where
  "GetClaims js token = json_Unmarshal_Claims js (RawBody token)"

section \<open>Claims validator\<close>

fun anyEquals :: "string list \<Rightarrow> string \<Rightarrow> bool" where
  "anyEquals [] needle = False"
| "anyEquals (v # haystack) needle = (if v = needle then True else anyEquals haystack needle)"

definition VerifyIssuer :: "Claims \<Rightarrow> string list \<Rightarrow> bool" where
  "VerifyIssuer claims expIssuer =
     (if Issuer claims = [] then True else anyEquals expIssuer (Issuer claims))"

definition VerifySubject :: "Claims \<Rightarrow> string list \<Rightarrow> bool" where
  "VerifySubject claims expSubject =
     (if Subject claims = [] then True else anyEquals expSubject (Subject claims))"

definition VerifyAudience :: "Claims \<Rightarrow> string list \<Rightarrow> bool" where
  "VerifyAudience claims expAudience =
     (if Audience claims = [] then True else anyEquals expAudience (Audience claims))"

definition VerifyNotBefore :: "Claims \<Rightarrow> Time \<Rightarrow> Duration \<Rightarrow> bool \<times> error option" where
  "VerifyNotBefore claims currentTime leeway =
     (if NotBefore claims = [] then (True, None)
      else (case strconv_ParseInt (NotBefore claims) of
              Inl err \<Rightarrow> (False, Some err)
            | Inr timeInt \<Rightarrow>
                (let nbfClaim = time_Unix timeInt 0
                 in (Time_After (Time_Add currentTime leeway) nbfClaim, None))))"

definition VerifyExpiration :: "Claims \<Rightarrow> Time \<Rightarrow> Duration \<Rightarrow> bool \<times> error option" where
  "VerifyExpiration claims currentTime leeway =
     (if Expiration claims = [] then (True, None)
      else (case strconv_ParseInt (Expiration claims) of
              Inl err \<Rightarrow> (False, Some err)
            | Inr timeInt \<Rightarrow>
                (let expClaim = time_Unix timeInt 0
                 in (Time_Before (Time_Add currentTime (- leeway)) expClaim, None))))"

text \<open>
  \<open>validationClaims\<close> is a pointer. The first statement reads a field through it, which
  panics on nil; the test for nil stands after the two time checks.
\<close>

definition ValidateRegisteredClaims ::
    "Claims \<Rightarrow> ValidationClaims option \<Rightarrow> (bool \<times> error option) outcome" where
  "ValidateRegisteredClaims claims validationClaims =
     (case validationClaims of
        None \<Rightarrow> Panics NilPointerDereference
      | Some v \<Rightarrow>
          (case VerifyNotBefore claims (vc_NotBefore v) (vc_NotBeforeLeeway v) of
             (nbfValid, err) \<Rightarrow>
               if \<not> nbfValid \<or> err \<noteq> None then Returns (False, err)
               else (case VerifyExpiration claims (vc_Expiration v) (vc_ExpirationLeeway v) of
                       (expirationValid, err) \<Rightarrow>
                         if \<not> expirationValid \<or> err \<noteq> None then Returns (False, err)
                         else if validationClaims = None then Returns (True, None)
                         else if \<not> VerifyIssuer claims (vc_Issuer v) then Returns (False, None)
                         else if \<not> VerifySubject claims (vc_Subject v) then Returns (False, None)
                         else if \<not> VerifyAudience claims (vc_Audience v) then Returns (False, None)
                         else Returns (True, None))))"

section \<open>Orchestrator\<close>

record JOSESignerVerifier =
  algorithm :: Algorithm
  signer :: "TokenSigner option"
  verifier :: "TokenVerifier option"

text \<open>The key handed to the constructor as \<open>interface{}\<close>: a pointer to a key (which may
  be nil), a byte slice, or a value of any other type.\<close>

datatype Key =
    KeyRSAPrivate "rsa_PrivateKey option"
  | KeyRSAPublic "rsa_PublicKey option"
  | KeyECDSAPrivate "ecdsa_PrivateKey option"
  | KeyECDSAPublic "ecdsa_PublicKey option"
  | KeyEd25519Private "ed25519_PrivateKey option"
  | KeyEd25519Public "ed25519_PublicKey option"
  | KeyBytes bytes
  | KeyOther

definition newFromEd25519Public ::
    "Algorithm \<Rightarrow> ed25519_PublicKey option \<Rightarrow> error + JOSESignerVerifier" where
  "newFromEd25519Public alg key =
     (case InitEdDSAVerifier alg key of
        Inl err \<Rightarrow> Inl err
      | Inr v \<Rightarrow> Inr \<lparr>algorithm = alg, signer = None, verifier = Some (VerifierEdDSA v)\<rparr>)"

text \<open>Reading the public half of a private key panics when the pointer is nil.\<close>

definition newFromEd25519Private ::
    "platform \<Rightarrow> Algorithm \<Rightarrow> ed25519_PrivateKey option \<Rightarrow> (error + JOSESignerVerifier) outcome" where
  "newFromEd25519Private plat alg key =
     (case key of
        None \<Rightarrow> Panics NilPointerDereference
      | Some k \<Rightarrow>
          (case newFromEd25519Public alg (Some (ed25519_Public plat k)) of
             Inl err \<Rightarrow> Returns (Inl err)
           | Inr sv \<Rightarrow>
               (case InitEdDSASigner alg key of
                  Inl err \<Rightarrow> Returns (Inl err)
                | Inr s \<Rightarrow> Returns (Inr (sv\<lparr>signer := Some (SignerEdDSA s)\<rparr>)))))"

definition newFromECDSAPublic ::
    "Algorithm \<Rightarrow> ecdsa_PublicKey option \<Rightarrow> error + JOSESignerVerifier" where
  "newFromECDSAPublic alg key =
     (case InitECDSAVerifier alg key of
        Inl err \<Rightarrow> Inl err
      | Inr v \<Rightarrow> Inr \<lparr>algorithm = alg, signer = None, verifier = Some (VerifierECDSA v)\<rparr>)"

definition newFromECDSAPrivate ::
    "Algorithm \<Rightarrow> ecdsa_PrivateKey option \<Rightarrow> (error + JOSESignerVerifier) outcome" where
  "newFromECDSAPrivate alg key =
     (case key of
        None \<Rightarrow> Panics NilPointerDereference
      | Some k \<Rightarrow>
          (case newFromECDSAPublic alg (Some (ec_PublicKey k)) of
             Inl err \<Rightarrow> Returns (Inl err)
           | Inr sv \<Rightarrow>
               (case InitECDSASigner alg key of
                  Inl err \<Rightarrow> Returns (Inl err)
                | Inr s \<Rightarrow> Returns (Inr (sv\<lparr>signer := Some (SignerECDSA s)\<rparr>)))))"

definition newFromRSAPublic ::
    "Algorithm \<Rightarrow> rsa_PublicKey option \<Rightarrow> error + JOSESignerVerifier" where
  "newFromRSAPublic alg key =
     (case InitRSAVerifier alg key of
        Inl err \<Rightarrow> Inl err
      | Inr v \<Rightarrow> Inr \<lparr>algorithm = alg, signer = None, verifier = Some (VerifierRSA v)\<rparr>)"

definition newFromRSAPrivate ::
    "Algorithm \<Rightarrow> rsa_PrivateKey option \<Rightarrow> (error + JOSESignerVerifier) outcome" where
  "newFromRSAPrivate alg key =
     (case key of
        None \<Rightarrow> Panics NilPointerDereference
      | Some k \<Rightarrow>
          (case newFromRSAPublic alg (Some (rsa_PublicKey k)) of
             Inl err \<Rightarrow> Returns (Inl err)
           | Inr sv \<Rightarrow>
               (case InitRSASigner alg key of
                  Inl err \<Rightarrow> Returns (Inl err)
                | Inr s \<Rightarrow> Returns (Inr (sv\<lparr>signer := Some (SignerRSA s)\<rparr>)))))"

definition newFromHMACBytes :: "Algorithm \<Rightarrow> bytes \<Rightarrow> error + JOSESignerVerifier" where
  "newFromHMACBytes alg key =
     (case InitHMACSignerVerifier alg key of
        Inl err \<Rightarrow> Inl err
      | Inr sv \<Rightarrow>
          Inr \<lparr>algorithm = alg, signer = Some (SignerHMAC sv), verifier = Some (VerifierHMAC sv)\<rparr>)"

fun NewJOSESignerVerifier ::
    "platform \<Rightarrow> Algorithm \<Rightarrow> Key \<Rightarrow> (error + JOSESignerVerifier) outcome" where
  "NewJOSESignerVerifier plat alg (KeyRSAPrivate rsaKey) = newFromRSAPrivate alg rsaKey"
| "NewJOSESignerVerifier plat alg (KeyRSAPublic rsaKey) = Returns (newFromRSAPublic alg rsaKey)"
| "NewJOSESignerVerifier plat alg (KeyECDSAPrivate ecdsaKey) = newFromECDSAPrivate alg ecdsaKey"
| "NewJOSESignerVerifier plat alg (KeyECDSAPublic ecdsaKey) =
     Returns (newFromECDSAPublic alg ecdsaKey)"
| "NewJOSESignerVerifier plat alg (KeyEd25519Private ed25519Key) =
     newFromEd25519Private plat alg ed25519Key"
| "NewJOSESignerVerifier plat alg (KeyEd25519Public ed25519Key) =
     Returns (newFromEd25519Public alg ed25519Key)"
| "NewJOSESignerVerifier plat alg (KeyBytes hmacKey) = Returns (newFromHMACBytes alg hmacKey)"
| "NewJOSESignerVerifier plat alg KeyOther = Returns (Inl ErrCannotCreateFromKeyType)"

definition NewInsecureJOSESignerVerifier :: "Algorithm \<Rightarrow> error + JOSESignerVerifier" where
  "NewInsecureJOSESignerVerifier alg =
     (if alg \<noteq> None_alg then Inl ErrInsecureNeedsNone
      else Inr \<lparr>algorithm = alg, signer = None, verifier = None\<rparr>)"

text \<open>A call of \<open>Sign\<close> through a nil interface value panics.\<close>

definition GenerateToken ::
    "platform \<Rightarrow> 'v json \<Rightarrow> JOSESignerVerifier \<Rightarrow> 'v \<Rightarrow> 'v \<Rightarrow> (error + bytes) outcome" where
  "GenerateToken plat js sv header body =
     (if verifier sv = None then Returns (Inl ErrNotConfiguredForSigning)
      else (case json_Marshal js header of
              Inl err \<Rightarrow> Returns (Inl err)
            | Inr joseHeader \<Rightarrow>
          (case json_Marshal js body of
              Inl err \<Rightarrow> Returns (Inl err)
            | Inr jwsPayload \<Rightarrow>
          (let headerAndClaims =
                 appendWithDot (Base64URLEncode joseHeader) (Base64URLEncode jwsPayload)
           in if algorithm sv = None_alg then Returns (Inr headerAndClaims)
              else (case signer sv of
                      None \<Rightarrow> Panics NilPointerDereference
                    | Some s \<Rightarrow>
                        (case Sign plat s headerAndClaims of
                           Panics p \<Rightarrow> Panics p
                         | Returns (Inl err) \<Rightarrow> Returns (Inl err)
                         | Returns (Inr jwSignature) \<Rightarrow>
                             Returns (Inr (appendWithDot headerAndClaims
                                             (Base64URLEncode jwSignature)))))))))"

text \<open>
  \<open>parts[0]\<close> always exists; \<open>parts[1]\<close> is read without a check that passes, so it
  panics when the input has no dot.
\<close>

definition GetRawTokenParts :: "bytes \<Rightarrow> (error + Token) outcome" where
  "GetRawTokenParts rawToken =
     (let parts = strings_Split rawToken (CHR ''.'')
      in if length parts < 2 \<and> length parts > 3 then Returns (Inl ErrTokenDots)
         else (case parts of
                 [] \<Rightarrow> Panics IndexOutOfRange
               | p0 # ps \<Rightarrow>
             (case Base64URLDecode p0 of
                 Inl err \<Rightarrow> Returns (Inl err)
               | Inr decodedHeader \<Rightarrow>
             (case ps of
                 [] \<Rightarrow> Panics IndexOutOfRange
               | p1 # ps' \<Rightarrow>
             (case Base64URLDecode p1 of
                 Inl err \<Rightarrow> Returns (Inl err)
               | Inr decodedBody \<Rightarrow>
                 (let token = \<lparr>Alg = [], RegisteredHeader = Header_zero,
                        RegisteredClaims = Claims_zero, RawToken = rawToken, RawHeader = p0,
                        RawBody = p1, RawSignature = [], DecodedHeader = decodedHeader,
                        DecodedBody = decodedBody, DecodedSignature = [],
                        signatureValid = False, claimsValid = False\<rparr>
                  in if length parts = 3
                     then (case Base64URLDecode (parts ! 2) of
                             Inl err \<Rightarrow> Returns (Inl err)
                           | Inr decodedSignature \<Rightarrow>
                               Returns (Inr (token\<lparr>RawSignature := parts ! 2,
                                                   DecodedSignature := decodedSignature\<rparr>)))
                     else Returns (Inr token)))))))"

text \<open>The three results of the Go function are one triple; the token is a pointer and may
  be nil. A call of \<open>Verify\<close> through a nil interface value panics.\<close>

definition VerifySignature ::
    "platform \<Rightarrow> 'v json \<Rightarrow> JOSESignerVerifier \<Rightarrow> bytes
       \<Rightarrow> (Token option \<times> bool \<times> error option) outcome" where
  "VerifySignature plat js sv rawToken =
     (case GetRawTokenParts rawToken of
        Panics p \<Rightarrow> Panics p
      | Returns (Inl err) \<Rightarrow> Returns (None, False, Some err)
      | Returns (Inr token) \<Rightarrow>
          (case GetHeader js token of
             Inl err \<Rightarrow> Returns (None, False, Some err)
           | Inr header \<Rightarrow>
               (let token = token\<lparr>RegisteredHeader := header\<rparr>
                in case verifier sv of
                     None \<Rightarrow> Panics NilPointerDereference
                   | Some v \<Rightarrow>
                       (case Verify plat v (appendWithDot (RawHeader token) (RawBody token))
                               (DecodedSignature token) of
                          (sigValid, err) \<Rightarrow>
                            Returns (Some (token\<lparr>signatureValid := sigValid\<rparr>), sigValid, err)))))"

definition VerifyToken ::
    "platform \<Rightarrow> 'v json \<Rightarrow> JOSESignerVerifier \<Rightarrow> bytes \<Rightarrow> ValidationClaims option
       \<Rightarrow> (Token option \<times> bool \<times> error option) outcome" where
  "VerifyToken plat js sv rawToken validationCriteria =
     (case VerifySignature plat js sv rawToken of
        Panics p \<Rightarrow> Panics p
      | Returns (token, sigValid, err) \<Rightarrow>
          if err \<noteq> None \<or> \<not> sigValid then Returns (None, False, err)
          else (case token of
                  None \<Rightarrow> Panics NilPointerDereference
                | Some tok \<Rightarrow>
                    (case GetClaims js tok of
                       Inl err \<Rightarrow> Returns (Some tok, False, Some err)
                     | Inr claims \<Rightarrow>
                         (let tok = tok\<lparr>RegisteredClaims := claims\<rparr>
                          in case ValidateRegisteredClaims claims validationCriteria of
                               Panics p \<Rightarrow> Panics p
                             | Returns (claimsOK, err) \<Rightarrow>
                                 Returns (Some tok, sigValid \<and> claimsOK, err)))))"

section \<open>A platform for the worked examples\<close>

text \<open>
  The theorems below hold for every platform. Their worked examples need one to compute
  with; this one is as simple as can be: every digest is the text \<open>digest\<close>, every
  MAC the text \<open>mac\<close>, every RSA and Ed25519 signature the text \<open>sig\<close>, every ECDSA
  signature the pair \<open>(1, 2)\<close>, and verification accepts exactly these.
\<close>

definition example_platform :: platform where
  "example_platform =
     \<lparr>hash_Sum = (\<lambda>h m. ''digest''),
      hmac_Sum = (\<lambda>h k m. ''mac''),
      rsa_SignPKCS1v15 = (\<lambda>k h d. Inr ''sig''),
      rsa_SignPSS = (\<lambda>k h d. Inr ''sig''),
      rsa_VerifyPKCS1v15 = (\<lambda>k h d s. if s = ''sig'' then None else Some ErrPrimitive),
      rsa_VerifyPSS = (\<lambda>k h d s. if s = ''sig'' then None else Some ErrPrimitive),
      ecdsa_Sign = (\<lambda>k d. Inr (1, 2)),
      ecdsa_Verify = (\<lambda>k d r s. r = 1 \<and> s = 2),
      ed25519_Sign = (\<lambda>k m. ''sig''),
      ed25519_Verify = (\<lambda>k m s. s = ''sig''),
      ed25519_Public = (\<lambda>k. k)\<rparr>"

section \<open>A JSON codec for the worked examples\<close>

text \<open>
  A JSON text begins, after white space, with the first byte of a value: an opening brace
  or bracket, a double quote, a minus sign, a digit, or the first letter of \<open>true\<close>,
  \<open>false\<close> or \<open>null\<close>. \<open>json.Unmarshal\<close> answers any other text with a syntax error.
\<close>

definition json_begins_value :: "bytes \<Rightarrow> bool" where
  "json_begins_value d =
     (case dropWhile (\<lambda>c. c = CHR 0x20 \<or> c = CHR 0x09 \<or> c = CHR 0x0D \<or> c = CHR 0x0A) d of
        [] \<Rightarrow> False
      | c # _ \<Rightarrow> c \<in> set ([CHR 0x7B, CHR 0x5B, CHR 0x22] @ ''-0123456789tfn''))"

text \<open>
  The codec of the examples knows one value, the empty object (an empty map or struct),
  whose JSON is \<open>{}\<close> and which decodes to a header and to claims with no field set.
  It answers a text that cannot begin a JSON value with the syntax error, as the library
  does; any other text is outside what the examples use.
\<close>

datatype example_value = EmptyObject

definition example_json :: "example_value json" where
  "example_json =
     \<lparr>json_Marshal = (\<lambda>v. Inr ''{}''),
      json_Unmarshal_Header =
        (\<lambda>d. if \<not> json_begins_value d then Inl JSONSyntaxError
             else if d = ''{}'' then Inr Header_zero
             else Inl JSONOtherError),
      json_Unmarshal_Claims =
        (\<lambda>d. if \<not> json_begins_value d then Inl JSONSyntaxError
             else if d = ''{}'' then Inr Claims_zero
             else Inl JSONOtherError)\<rparr>"

text \<open>The keys that hold only the public half of a key pair.\<close>

fun public_key :: "Key \<Rightarrow> bool" where
  "public_key (KeyRSAPublic k) = True"
| "public_key (KeyECDSAPublic k) = True"
| "public_key (KeyEd25519Public k) = True"
| "public_key k = False"


lemmas alg_defs = HS256_def HS384_def HS512_def RS256_def RS384_def RS512_def
  ES256_def ES384_def ES512_def PS256_def PS384_def PS512_def EdDSA_def None_alg_def

section \<open>Facts about the codec utilities\<close>

lemma sb1: "(x::nat) < 256 \<Longrightarrow> x div 4 < 64" by simp
lemma sb2: "(y::nat) < 256 \<Longrightarrow> (x mod 4) * 16 + y div 16 < 64"
proof -
  assume "y < 256"
  then have "y div 16 < 16" by simp
  moreover have "x mod 4 < 4" by simp
  ultimately show ?thesis by linarith
qed
lemma sb3: "(z::nat) < 256 \<Longrightarrow> (y mod 16) * 4 + z div 64 < 64"
proof -
  assume "z < 256"
  then have "z div 64 < 4" by simp
  moreover have "y mod 16 < 16" by simp
  ultimately show ?thesis by linarith
qed
lemma sb4: "(x mod 4) * 16 < (64::nat)"
proof -
  have "x mod 4 < 4" by simp
  then show ?thesis by linarith
qed
lemma sb5: "(y mod 16) * 4 < (64::nat)"
proof -
  have "y mod 16 < 16" by simp
  then show ?thesis by linarith
qed

lemma si1: "(y::nat) < 256 \<Longrightarrow> (x div 4) * 4 + ((x mod 4) * 16 + y div 16) div 16 = x"
  by (simp add: div_mult2_eq)
lemma si2: "(y::nat) < 256 \<Longrightarrow> (z::nat) < 256 \<Longrightarrow> (((x mod 4) * 16 + y div 16) mod 16) * 16 + ((y mod 16) * 4 + z div 64) div 4 = y"
proof -
  assume "y < 256" "z < 256"
  then have "y div 16 < 16" "z div 64 < 4" by simp_all
  then show ?thesis by (simp add: div_mult2_eq)
qed
lemma si3: "(z::nat) < 256 \<Longrightarrow> (((y mod 16) * 4 + z div 64) mod 4) * 64 + z mod 64 = (z::nat)"
proof -
  assume "z < 256"
  then have "z div 64 < 4" by simp
  then show ?thesis by (simp add: div_mult2_eq)
qed
lemma si4: "(x div 4) * 4 + ((x mod 4) * 16) div 16 = (x::nat)"
  by simp
lemma si5: "(y::nat) < 256 \<Longrightarrow>(((x mod 4) * 16 + y div 16) mod 16) * 16 + ((y mod 16) * 4) div 4 = y"
proof -
  assume "y < 256"
  then have "y div 16 < 16" by simp
  then show ?thesis by (simp add: div_mult2_eq)
qed

lemma encodeStd_length: "length encodeStd = 64"
  by (simp add: encodeStd_def)

lemma encodeStd_distinct: "distinct encodeStd"
  by (simp add: encodeStd_def)

lemma decodeMap_nth: "n < 64 \<Longrightarrow> decodeMap (encodeStd ! n) = Some n"
  unfolding decodeMap_def
  using map_of_zip_nth [of encodeStd "[0..<64]" n]
  by (simp add: encodeStd_length encodeStd_distinct)

lemma encodeStd_nth_in: "n < 64 \<Longrightarrow> encodeStd ! n \<in> set encodeStd"
  by (simp add: encodeStd_length)

lemma encodeStd_plain:
  "c \<in> set encodeStd \<Longrightarrow> c \<noteq> CHR ''='' \<and> c \<noteq> CHR ''-'' \<and> c \<noteq> CHR ''_'' \<and> c \<noteq> CHR 0x0D \<and> c \<noteq> CHR 0x0A \<and> c \<noteq> CHR ''.''"
  by (auto simp add: encodeStd_def)

lemma split_first:
  "(case strings_Split s sep of p # _ \<Rightarrow> p | [] \<Rightarrow> []) = takeWhile (\<lambda>c. c \<noteq> sep) s"
  by (induction s) (auto split: list.splits)

lemma decodeMap_pad: "decodeMap (CHR ''='') = None"
  by (simp add: decodeMap_def encodeStd_def)

lemma quantum3:
  fixes x y z :: nat
  assumes "x < 256" "y < 256" "z < 256"
  shows "decodeQuanta (encodeStd ! (x div 4) # encodeStd ! ((x mod 4) * 16 + y div 16)
           # encodeStd ! ((y mod 16) * 4 + z div 64) # encodeStd ! (z mod 64) # rest) =
         (case decodeQuanta rest of Inl e \<Rightarrow> Inl e
          | Inr out \<Rightarrow> Inr (char_of x # char_of y # char_of z # out))"
proof -
  have d0: "decodeMap (encodeStd ! (x div 4)) = Some (x div 4)"
    using assms by (intro decodeMap_nth sb1)
  have d1: "decodeMap (encodeStd ! ((x mod 4) * 16 + y div 16)) = Some ((x mod 4) * 16 + y div 16)"
    using assms by (intro decodeMap_nth sb2)
  have d2: "decodeMap (encodeStd ! ((y mod 16) * 4 + z div 64)) = Some ((y mod 16) * 4 + z div 64)"
    using assms by (intro decodeMap_nth sb3)
  have d3: "decodeMap (encodeStd ! (z mod 64)) = Some (z mod 64)"
    by (intro decodeMap_nth) simp
  show ?thesis
    by (simp only: decodeQuanta.simps d0 d1 d2 d3 option.case
          si1 [OF assms(2)] si2 [OF assms(2) assms(3)] si3 [OF assms(3)])
qed

lemma quantum2:
  fixes x y :: nat
  assumes "x < 256" "y < 256"
  shows "decodeQuanta [encodeStd ! (x div 4), encodeStd ! ((x mod 4) * 16 + y div 16),
           encodeStd ! ((y mod 16) * 4), CHR ''=''] = Inr [char_of x, char_of y]"
proof -
  have d0: "decodeMap (encodeStd ! (x div 4)) = Some (x div 4)"
    using assms by (intro decodeMap_nth sb1)
  have d1: "decodeMap (encodeStd ! ((x mod 4) * 16 + y div 16)) = Some ((x mod 4) * 16 + y div 16)"
    using assms by (intro decodeMap_nth sb2)
  have d2: "decodeMap (encodeStd ! ((y mod 16) * 4)) = Some ((y mod 16) * 4)"
    by (intro decodeMap_nth sb5)
  show ?thesis
    by (simp only: decodeQuanta.simps d0 d1 d2 decodeMap_pad option.case
          si1 [OF assms(2)] si5 [OF assms(2)] simp_thms if_True)
qed

lemma quantum1:
  fixes x :: nat
  assumes "x < 256"
  shows "decodeQuanta [encodeStd ! (x div 4), encodeStd ! ((x mod 4) * 16),
           CHR ''='', CHR ''=''] = Inr [char_of x]"
proof -
  have d0: "decodeMap (encodeStd ! (x div 4)) = Some (x div 4)"
    using assms by (intro decodeMap_nth sb1)
  have d1: "decodeMap (encodeStd ! ((x mod 4) * 16)) = Some ((x mod 4) * 16)"
    by (intro decodeMap_nth sb4)
  show ?thesis
    by (simp only: decodeQuanta.simps d0 d1 decodeMap_pad option.case si4 simp_thms if_True)
qed

lemma decodeQuanta_EncodeToString: "decodeQuanta (EncodeToString b) = Inr b"
proof (induction b rule: EncodeToString.induct)
  case (1 a b c rest)
  have lt: "of_char a < (256::nat)" "of_char b < (256::nat)" "of_char c < (256::nat)" by simp_all
  show ?case
    by (simp only: EncodeToString.simps append_Cons append_Nil quantum3 [OF lt] 1 sum.case char_of_char)
next
  case (2 a b)
  have lt: "of_char a < (256::nat)" "of_char b < (256::nat)" by simp_all
  show ?case
    by (simp only: EncodeToString.simps quantum2 [OF lt] char_of_char)
next
  case (3 a)
  have lt: "of_char a < (256::nat)" by simp
  show ?case
    by (simp only: EncodeToString.simps quantum1 [OF lt] char_of_char)
next
  case 4
  show ?case by simp
qed

text \<open>The shape of a standard encoding: characters of the alphabet, then the padding
  that the length calls for.\<close>

lemma EncodeToString_shape:
  "set (takeWhile (\<lambda>c. c \<noteq> CHR ''='') (EncodeToString b)) \<subseteq> set encodeStd \<and>
   (let t = takeWhile (\<lambda>c. c \<noteq> CHR ''='') (EncodeToString b) in
      (length t mod 4 = 0 \<and> EncodeToString b = t) \<or>
      (length t mod 4 = 2 \<and> EncodeToString b = t @ ''=='') \<or>
      (length t mod 4 = 3 \<and> EncodeToString b = t @ ''=''))"
proof (induction b rule: EncodeToString.induct)
  case (1 a b c rest)
  have lt: "of_char a < (256::nat)" "of_char b < (256::nat)" "of_char c < (256::nat)" by simp_all
  have m: "encodeStd ! (of_char a div 4) \<in> set encodeStd"
      "encodeStd ! ((of_char a mod 4) * 16 + of_char b div 16) \<in> set encodeStd"
      "encodeStd ! ((of_char b mod 16) * 4 + of_char c div 64) \<in> set encodeStd"
      "encodeStd ! (of_char c mod 64) \<in> set encodeStd"
    using lt by (auto intro!: encodeStd_nth_in sb1 sb2 sb3)
  show ?case
    using 1 m encodeStd_plain [OF m(1)] encodeStd_plain [OF m(2)] encodeStd_plain [OF m(3)]
      encodeStd_plain [OF m(4)]
    by (simp add: Let_def)
next
  case (2 a b)
  have lt: "of_char a < (256::nat)" "of_char b < (256::nat)" by simp_all
  have m: "encodeStd ! (of_char a div 4) \<in> set encodeStd"
      "encodeStd ! ((of_char a mod 4) * 16 + of_char b div 16) \<in> set encodeStd"
      "encodeStd ! ((of_char b mod 16) * 4) \<in> set encodeStd"
    using lt by (auto intro!: encodeStd_nth_in sb1 sb2 sb5)
  show ?case
    using m encodeStd_plain [OF m(1)] encodeStd_plain [OF m(2)] encodeStd_plain [OF m(3)]
    by (simp add: Let_def)
next
  case (3 a)
  have lt: "of_char a < (256::nat)" by simp
  have m: "encodeStd ! (of_char a div 4) \<in> set encodeStd"
      "encodeStd ! ((of_char a mod 4) * 16) \<in> set encodeStd"
    using lt by (auto intro!: encodeStd_nth_in sb1 sb4)
  show ?case
    using m encodeStd_plain [OF m(1)] encodeStd_plain [OF m(2)]
    by (simp add: Let_def)
next
  case 4
  show ?case by simp
qed

lemma Base64URLEncode_eq:
  "Base64URLEncode b =
     strings_Replace (strings_Replace (takeWhile (\<lambda>c. c \<noteq> CHR ''='') (EncodeToString b))
        (CHR ''+'') (CHR ''-'')) (CHR ''/'') (CHR ''_'')"
  by (simp add: Base64URLEncode_def Let_def split_first)

lemma url_back:
  assumes "set t \<subseteq> set encodeStd"
  shows "strings_Replace (strings_Replace (strings_Replace (strings_Replace t
           (CHR ''+'') (CHR ''-'')) (CHR ''/'') (CHR ''_'')) (CHR ''-'') (CHR ''+''))
           (CHR ''_'') (CHR ''/'') = t"
proof -
  have "\<And>c. c \<in> set t \<Longrightarrow> c \<noteq> CHR ''-'' \<and> c \<noteq> CHR ''_''"
    using assms encodeStd_plain by blast
  then show ?thesis
    by (auto simp add: strings_Replace_def intro!: map_idI)
qed

lemma DecodeString_EncodeToString: "DecodeString (EncodeToString b) = Inr b"
proof -
  have "c \<noteq> CHR 0x0D \<and> c \<noteq> CHR 0x0A" if "c \<in> set (EncodeToString b)" for c
  proof -
    let ?t = "takeWhile (\<lambda>c. c \<noteq> CHR ''='') (EncodeToString b)"
    from EncodeToString_shape [of b]
    have sub: "set ?t \<subseteq> set encodeStd"
      and sh: "EncodeToString b = ?t \<or> EncodeToString b = ?t @ ''=='' \<or> EncodeToString b = ?t @ ''=''"
      by (auto simp add: Let_def)
    from sh that have "c \<in> set ?t \<or> c = CHR ''=''"
      by (metis Un_iff empty_iff insert_iff list.set(1) list.set(2) set_append)
    then show ?thesis using sub encodeStd_plain by auto
  qed
  then have "filter (\<lambda>c. c \<noteq> CHR 0x0D \<and> c \<noteq> CHR 0x0A) (EncodeToString b) = EncodeToString b"
    by (intro filter_True) blast
  then show ?thesis
    by (simp add: DecodeString_def decodeQuanta_EncodeToString)
qed

lemma Base64URL_roundtrip: "Base64URLDecode (Base64URLEncode b) = Inr b"
proof -
  let ?t = "takeWhile (\<lambda>c. c \<noteq> CHR ''='') (EncodeToString b)"
  from EncodeToString_shape [of b]
  have sub: "set ?t \<subseteq> set encodeStd"
    and sh: "(length ?t mod 4 = 0 \<and> EncodeToString b = ?t) \<or>
      (length ?t mod 4 = 2 \<and> EncodeToString b = ?t @ ''=='') \<or>
      (length ?t mod 4 = 3 \<and> EncodeToString b = ?t @ ''='')"
    by (simp_all add: Let_def)
  have unurl: "strings_Replace (strings_Replace (Base64URLEncode b) (CHR ''-'') (CHR ''+''))
           (CHR ''_'') (CHR ''/'') = ?t"
    unfolding Base64URLEncode_eq by (rule url_back [OF sub])
  from sh show ?thesis
    unfolding Base64URLDecode_def Let_def unurl
    using DecodeString_EncodeToString [of b] by auto
qed

lemma Base64URLEncode_chars:
  "set (Base64URLEncode b) \<subseteq>
     set ''ABCDEFGHIJKLMNOPQRSTUVWXYZabcdefghijklmnopqrstuvwxyz0123456789-_''"
proof
  fix x
  assume "x \<in> set (Base64URLEncode b)"
  then obtain c where c: "c \<in> set (takeWhile (\<lambda>c. c \<noteq> CHR ''='') (EncodeToString b))"
    and x: "x = (if (if c = CHR ''+'' then CHR ''-'' else c) = CHR ''/'' then CHR ''_''
               else (if c = CHR ''+'' then CHR ''-'' else c))"
    unfolding Base64URLEncode_eq strings_Replace_def by auto
  from c EncodeToString_shape [of b] have "c \<in> set encodeStd" by blast
  then show "x \<in> set ''ABCDEFGHIJKLMNOPQRSTUVWXYZabcdefghijklmnopqrstuvwxyz0123456789-_''"
    unfolding x encodeStd_def by (simp, elim disjE, simp_all)
qed

lemma Base64URLEncode_no_special:
  "CHR ''='' \<notin> set (Base64URLEncode b) \<and> CHR ''+'' \<notin> set (Base64URLEncode b) \<and>
   CHR ''/'' \<notin> set (Base64URLEncode b) \<and> CHR ''.'' \<notin> set (Base64URLEncode b)"
  using Base64URLEncode_chars [of b] by auto

section \<open>Base64url\<close>

text \<open>
  C10. Decoding the base64url encoding of any byte array succeeds and gives the array
  back. The encoding never contains the padding character \<open>=\<close>, and never \<open>+\<close> or
  \<open>/\<close>: every character is a letter, a digit, \<open>-\<close> or \<open>_\<close>.
\<close>

theorem Base64URL_decode_encode:
  "Base64URLDecode (Base64URLEncode b) = Inr b \<and>
   CHR ''='' \<notin> set (Base64URLEncode b) \<and>
   CHR ''+'' \<notin> set (Base64URLEncode b) \<and>
   CHR ''/'' \<notin> set (Base64URLEncode b) \<and>
   set (Base64URLEncode b) \<subseteq>
     set ''ABCDEFGHIJKLMNOPQRSTUVWXYZabcdefghijklmnopqrstuvwxyz0123456789-_''"
  using Base64URL_roundtrip [of b] Base64URLEncode_no_special [of b]
    Base64URLEncode_chars [of b]
  by simp

lemma decodeQuanta_error: "decodeQuanta s = Inl e \<Longrightarrow> e = CorruptInputError"
  by (induction s arbitrary: e rule: decodeQuanta.induct)
     (auto split: option.splits if_splits sum.splits)

lemma Base64URLDecode_error:
  "Base64URLDecode s = Inl e \<Longrightarrow> e = CorruptInputError \<or> e = ErrIllegalBase64URL"
  by (auto simp add: Base64URLDecode_def DecodeString_def Let_def
        dest: decodeQuanta_error split: if_splits)

lemma strings_Split_nonempty: "strings_Split s sep \<noteq> []"
  by (induction s) (auto split: list.splits)

lemma Base64URLDecode_e30: "Base64URLDecode ''e30'' = Inr ''{}''"
  by code_simp

section \<open>The split-count check of GetRawTokenParts\<close>

lemma GetRawTokenParts_never_ErrTokenDots:
  "GetRawTokenParts rawToken \<noteq> Returns (Inl ErrTokenDots)"
  by (auto simp add: GetRawTokenParts_def Let_def
        dest!: Base64URLDecode_error split: list.splits sum.splits if_splits)

lemma GetRawTokenParts_no_dot:
  assumes "CHR ''.'' \<notin> set rawToken"
  shows "GetRawTokenParts rawToken =
     (case Base64URLDecode rawToken of
        Inl err \<Rightarrow> Returns (Inl err)
      | Inr decodedHeader \<Rightarrow> Panics IndexOutOfRange)"
proof -
  have "strings_Split rawToken (CHR ''.'') = [rawToken]"
    using assms by (induction rawToken) auto
  then show ?thesis
    by (simp add: GetRawTokenParts_def Let_def split: sum.splits)
qed

text \<open>
  C3. The check of the number of parts can never fail (its condition asks for a length
  below 2 and above 3 at once). An input with no dot whose text decodes makes the read of
  the second part panic, and an input with three dots or more is accepted: a token is
  returned from its first two parts.
\<close>

theorem GetRawTokenParts_part_count_unchecked:
  "GetRawTokenParts ''e30'' = Panics IndexOutOfRange \<and>
   GetRawTokenParts ''e30.e30.e30.e30'' =
     Returns (Inr \<lparr>Alg = [], RegisteredHeader = Header_zero, RegisteredClaims = Claims_zero,
       RawToken = ''e30.e30.e30.e30'', RawHeader = ''e30'', RawBody = ''e30'',
       RawSignature = [], DecodedHeader = ''{}'', DecodedBody = ''{}'',
       DecodedSignature = [], signatureValid = False, claimsValid = False\<rparr>)"
  by (simp add: GetRawTokenParts_def Base64URLDecode_e30 Let_def)

theorem GetRawTokenParts_part_count_unchecked_witness:
  "GetRawTokenParts ''e30'' \<noteq> Returns (Inl ErrTokenDots) \<and>
   GetRawTokenParts ''e30.e30.e30.e30'' \<noteq> Returns (Inl ErrTokenDots)"
  using GetRawTokenParts_part_count_unchecked by simp

section \<open>Claims validation without parameters\<close>

text \<open>
  C5. With a nil parameters pointer the validator reads a field through the pointer
  before any check runs, so the call panics for every claims set; no check is made and
  no result is returned.
\<close>

theorem ValidateRegisteredClaims_nil_panics:
  "ValidateRegisteredClaims claims None = Panics NilPointerDereference"
  by (simp add: ValidateRegisteredClaims_def)

theorem ValidateRegisteredClaims_nil_panics_witness:
  "ValidateRegisteredClaims (Claims_zero\<lparr>Expiration := ''1''\<rparr>) None
     = Panics NilPointerDereference \<and>
   ValidateRegisteredClaims (Claims_zero\<lparr>Expiration := ''1''\<rparr>) None \<noteq> Returns (False, None)"
  using ValidateRegisteredClaims_nil_panics [of "Claims_zero\<lparr>Expiration := ''1''\<rparr>"]
  by simp

section \<open>The expiration rule\<close>





section \<open>Big-endian integers\<close>

declare big_Bytes.simps [simp del]

lemma big_Bytes_0: "big_Bytes 0 = []"
  by (simp add: big_Bytes.simps)

lemma big_Bytes_pos: "0 < n \<Longrightarrow> big_Bytes n = big_Bytes (n div 256) @ [char_of (n mod 256)]"
  by (subst big_Bytes.simps) simp

lemma big_SetBytes_snoc: "big_SetBytes (xs @ [b]) = big_SetBytes xs * 256 + of_char b"
  by (simp add: big_SetBytes_def)

lemma big_SetBytes_big_Bytes: "big_SetBytes (big_Bytes n) = n"
proof (induction n rule: big_Bytes.induct)
  case (1 n)
  show ?case
  proof (cases "n = 0")
    case True
    then show ?thesis by (simp add: big_Bytes_0 big_SetBytes_def)
  next
    case False
    then have "big_SetBytes (big_Bytes n) = big_SetBytes (big_Bytes (n div 256)) * 256 + n mod 256"
      by (simp add: big_Bytes_pos big_SetBytes_snoc del: append_assoc)
    also have "\<dots> = (n div 256) * 256 + n mod 256"
      using 1 False by simp
    finally show ?thesis by simp
  qed
qed

lemma foldl_zeros:
  "foldl (\<lambda>acc b. acc * 256 + of_char b) (0::nat) (replicate k (CHR 0x00)) = 0"
  by (induction k) simp_all

lemma big_SetBytes_padded: "big_SetBytes (replicate k (CHR 0x00) @ xs) = big_SetBytes xs"
  by (simp add: big_SetBytes_def foldl_zeros)

lemma big_Bytes_length: "n < 256 ^ w \<Longrightarrow> length (big_Bytes n) \<le> w"
proof (induction n arbitrary: w rule: big_Bytes.induct)
  case (1 n)
  show ?case
  proof (cases "n = 0")
    case True
    then show ?thesis by (simp add: big_Bytes_0)
  next
    case False
    with "1.prems" obtain v where w: "w = Suc v"
      by (cases w) auto
    with "1.prems" have "n div 256 < 256 ^ v"
      by (simp add: less_mult_imp_div_less mult.commute)
    with 1 False have "length (big_Bytes (n div 256)) \<le> v" by blast
    with False w show ?thesis by (simp add: big_Bytes_pos)
  qed
qed

section \<open>ECDSA signatures\<close>

lemma getSignatureLength_values:
  "getSignatureLength P256 = 32" "getSignatureLength P384 = 48" "getSignatureLength P521 = 66"
  "getSignatureLength P224 = 29"
  by (simp_all add: getSignatureLength_def Let_def)

lemma InitECDSASigner_Inr:
  assumes "InitECDSASigner alg key = Inr sv"
  shows "ecs_algorithm sv = alg \<and>
     (alg = ES256 \<and> ec_Curve (ec_PublicKey (ecs_prvKey sv)) = P256 \<or>
      alg = ES384 \<and> ec_Curve (ec_PublicKey (ecs_prvKey sv)) = P384 \<or>
      alg = ES512 \<and> ec_Curve (ec_PublicKey (ecs_prvKey sv)) = P521)"
proof -
  from assms obtain k where k: "key = Some k" "alg \<noteq> []"
    "validateKeyMatchesAlgorithm alg k = None" "sv = \<lparr>ecs_algorithm = alg, ecs_prvKey = k\<rparr>"
    by (auto simp add: InitECDSASigner_def split: option.splits if_splits)
  from k(3) show ?thesis
    unfolding k(4)
    by (cases "ec_Curve (ec_PublicKey k)")
       (auto simp add: validateKeyMatchesAlgorithm_def getExpectedKeyParameters_def
          split: if_splits sum.splits)
qed

lemma padAndJoin_Returns:
  assumes "padAndJoin sv r s = Returns sig"
      and "w = getSignatureLength (ec_Curve (ec_PublicKey (ecs_prvKey sv)))"
  shows "length (big_Bytes r) \<le> w \<and> length (big_Bytes s) \<le> w \<and>
     sig = (replicate (w - length (big_Bytes r)) (CHR 0x00) @ big_Bytes r) @
           (replicate (w - length (big_Bytes s)) (CHR 0x00) @ big_Bytes s)"
  using assms by (auto simp add: padAndJoin_def Let_def split: if_splits)

lemma padded_halves:
  assumes "length rb \<le> w" "length sb \<le> w"
      and "sig = (replicate (w - length rb) z @ rb) @ (replicate (w - length sb) z @ sb)"
  shows "length sig = 2 * w \<and> take w sig = replicate (w - length rb) z @ rb \<and>
     drop w sig = replicate (w - length sb) z @ sb"
  using assms by simp

text \<open>
  C8. A signature returned by the ECDSA signer is \<open>r || s\<close>, each coordinate written
  big-endian on exactly \<open>ceil(bits / 8)\<close> bytes (32, 48 or 66 for the three curves a
  signer can hold) and padded on the left with zero bytes; an ES512 signature has 132
  bytes whatever the size of \<open>r\<close> and \<open>s\<close>.
\<close>

theorem ECDSASigner_Sign_fixed_width:
  assumes "InitECDSASigner alg key = Inr sv"
      and "ECDSASigner_Sign plat sv plaintext = Returns (Inr sig)"
  shows "(let curve = ec_Curve (ec_PublicKey (ecs_prvKey sv));
              w = (Params_BitSize curve + 7) div 8
          in (alg = ES256 \<and> curve = P256 \<and> w = 32 \<or>
              alg = ES384 \<and> curve = P384 \<and> w = 48 \<or>
              alg = ES512 \<and> curve = P521 \<and> w = 66) \<and>
             length sig = 2 * w \<and>
             (case GetHash plat alg plaintext of
                Inl err \<Rightarrow> False
              | Inr hash \<Rightarrow>
                  (case ecdsa_Sign plat (ecs_prvKey sv) hash of
                     Inl err \<Rightarrow> False
                   | Inr (r, s) \<Rightarrow>
                       length (big_Bytes r) \<le> w \<and> length (big_Bytes s) \<le> w \<and>
                       take w sig = replicate (w - length (big_Bytes r)) (CHR 0x00) @ big_Bytes r \<and>
                       drop w sig = replicate (w - length (big_Bytes s)) (CHR 0x00) @ big_Bytes s \<and>
                       big_SetBytes (take w sig) = r \<and>
                       big_SetBytes (drop w sig) = s)))"
proof -
  let ?curve = "ec_Curve (ec_PublicKey (ecs_prvKey sv))"
  let ?w = "(Params_BitSize ?curve + 7) div 8"
  from InitECDSASigner_Inr [OF assms(1)]
  have alg: "ecs_algorithm sv = alg"
    and cases: "alg = ES256 \<and> ?curve = P256 \<or> alg = ES384 \<and> ?curve = P384 \<or>
       alg = ES512 \<and> ?curve = P521"
    by simp_all
  from cases have w: "getSignatureLength ?curve = ?w"
    by (auto simp add: getSignatureLength_values)
  from cases have c3: "alg = ES256 \<and> ?curve = P256 \<and> ?w = 32 \<or>
      alg = ES384 \<and> ?curve = P384 \<and> ?w = 48 \<or> alg = ES512 \<and> ?curve = P521 \<and> ?w = 66"
    by auto
  from assms(2) alg obtain hash r s where
    h: "GetHash plat alg plaintext = Inr hash"
    and p: "ecdsa_Sign plat (ecs_prvKey sv) hash = Inr (r, s)"
    and j: "padAndJoin sv r s = Returns sig"
    by (auto simp add: ECDSASigner_Sign_def split: sum.splits outcome.splits prod.splits)
  from padAndJoin_Returns [OF j w [symmetric]]
  have lr: "length (big_Bytes r) \<le> ?w" and ls: "length (big_Bytes s) \<le> ?w"
    and sig: "sig = (replicate (?w - length (big_Bytes r)) (CHR 0x00) @ big_Bytes r) @
           (replicate (?w - length (big_Bytes s)) (CHR 0x00) @ big_Bytes s)"
    by simp_all
  from padded_halves [OF lr ls sig]
  have len: "length sig = 2 * ?w"
    and tk: "take ?w sig = replicate (?w - length (big_Bytes r)) (CHR 0x00) @ big_Bytes r"
    and dr: "drop ?w sig = replicate (?w - length (big_Bytes s)) (CHR 0x00) @ big_Bytes s"
    by simp_all
  have vr: "big_SetBytes (take ?w sig) = r" and vs: "big_SetBytes (drop ?w sig) = s"
    unfolding tk dr by (simp_all only: big_SetBytes_padded big_SetBytes_big_Bytes)
  show ?thesis
    using c3 len lr ls tk dr vr vs by (simp add: Let_def h p)
qed

lemma big_Bytes_1: "big_Bytes 1 = [CHR 0x01]" "big_Bytes (Suc 0) = [CHR 0x01]"
  by code_simp+

lemma big_Bytes_2: "big_Bytes 2 = [CHR 0x02]"
  by code_simp

lemma big_SetBytes_padded_1: "big_SetBytes (replicate k (CHR 0x00) @ [CHR 0x01]) = Suc 0"
  by (simp only: big_SetBytes_padded) (simp add: big_SetBytes_def)

lemma big_SetBytes_padded_2: "big_SetBytes (replicate k (CHR 0x00) @ [CHR 0x02]) = 2"
  by (simp only: big_SetBytes_padded) (simp add: big_SetBytes_def)

theorem ECDSASigner_Sign_fixed_width_witness:
  "ECDSASigner_Sign example_platform
     \<lparr>ecs_algorithm = ES512,
      ecs_prvKey = \<lparr>ec_PublicKey = \<lparr>ec_Curve = P521, ec_X = 0, ec_Y = 0\<rparr>, ec_D = 1\<rparr>\<rparr>
     ''msg''
   = Returns (Inr (replicate 65 (CHR 0x00) @ [CHR 0x01] @ replicate 65 (CHR 0x00) @ [CHR 0x02])) \<and>
   length (replicate 65 (CHR 0x00) @ [CHR 0x01] @ replicate 65 (CHR 0x00) @ [CHR 0x02]) = 132 \<and>
   big_SetBytes (take 66 (replicate 65 (CHR 0x00) @ [CHR 0x01] @ replicate 65 (CHR 0x00) @ [CHR 0x02])) = 1"
proof -
  let ?k = "\<lparr>ec_PublicKey = \<lparr>ec_Curve = P521, ec_X = 0, ec_Y = 0\<rparr>, ec_D = 1\<rparr>"
  let ?sv = "\<lparr>ecs_algorithm = ES512, ecs_prvKey = ?k\<rparr>"
  let ?sig = "replicate 65 (CHR 0x00) @ [CHR 0x01] @ replicate 65 (CHR 0x00) @ [CHR 0x02]"
  have init: "InitECDSASigner ES512 (Some ?k) = Inr ?sv"
    by (simp add: InitECDSASigner_def validateKeyMatchesAlgorithm_def
          getExpectedKeyParameters_def alg_defs)
  have sign: "ECDSASigner_Sign example_platform ?sv ''msg'' = Returns (Inr ?sig)"
    by (simp add: ECDSASigner_Sign_def GetHash_def example_platform_def padAndJoin_def
          getSignatureLength_values big_Bytes_1 big_Bytes_2 alg_defs Let_def)
  have h: "GetHash example_platform ES512 ''msg'' = Inr ''digest''"
    by (simp add: GetHash_def example_platform_def alg_defs)
  have p: "ecdsa_Sign example_platform ?k ''digest'' = Inr (1, 2)"
    by (simp add: example_platform_def)
  from ECDSASigner_Sign_fixed_width [OF init sign] sign
  show ?thesis
    by (simp add: Let_def h p big_SetBytes_padded_1)
qed

lemma pow256: "(256::nat) ^ w = 2 ^ (8 * w)"
  by (simp add: power_mult)

lemma padAndJoin_total:
  assumes "getSignatureLength (ec_Curve (ec_PublicKey (ecs_prvKey sv))) * 8
             \<ge> Params_BitSize (ec_Curve (ec_PublicKey (ecs_prvKey sv)))"
      and "r < 2 ^ Params_BitSize (ec_Curve (ec_PublicKey (ecs_prvKey sv)))"
      and "s < 2 ^ Params_BitSize (ec_Curve (ec_PublicKey (ecs_prvKey sv)))"
  shows "padAndJoin sv r s \<noteq> Panics p"
proof -
  let ?w = "getSignatureLength (ec_Curve (ec_PublicKey (ecs_prvKey sv)))"
  let ?b = "Params_BitSize (ec_Curve (ec_PublicKey (ecs_prvKey sv)))"
  have "(2::nat) ^ ?b \<le> 2 ^ (8 * ?w)"
    using assms(1) by (intro power_increasing) (simp_all add: mult.commute)
  with assms(2,3) have "r < 256 ^ ?w" "s < 256 ^ ?w"
    unfolding pow256 by linarith+
  then have "length (big_Bytes r) \<le> ?w" "length (big_Bytes s) \<le> ?w"
    by (simp_all add: big_Bytes_length)
  then show ?thesis
    by (simp add: padAndJoin_def Let_def)
qed

section \<open>ECDSA verification\<close>

lemma InitECDSAVerifier_Inr:
  assumes "InitECDSAVerifier alg key = Inr sv"
  shows "ecv_algorithm sv = alg \<and> key = Some (ecv_pubKey sv) \<and>
         (alg = ES256 \<or> alg = ES384 \<or> alg = ES512)"
  using assms by (auto simp add: InitECDSAVerifier_def split: option.splits if_splits)

lemma GetHash_ES:
  assumes "alg = ES256 \<or> alg = ES384 \<or> alg = ES512"
  shows "GetHash plat alg plaintext =
     Inr (hash_Sum plat (if alg = ES256 then SHA256 else if alg = ES384 then SHA384 else SHA512)
            plaintext)"
  using assms by (auto simp add: GetHash_def alg_defs)

text \<open>
  C9. A verifier made by \<open>InitECDSAVerifier\<close> answers a signature whose length is not
  twice the width of its curve (32, 48 and 66 bytes for P-256, P-384 and P-521) with
  false and the length error, whatever the verification primitive is, so the primitive
  has no part in the answer. A signature of exactly that length is cut in two halves, each
  read as a big-endian unsigned integer, and the answer is the primitive's, with no error.
\<close>

theorem ECDSAVerifier_Verify_length:
  assumes "InitECDSAVerifier alg key = Inr sv"
  shows "(let curve = ec_Curve (ecv_pubKey sv); w = getSignatureLength curve
          in (curve = P256 \<longrightarrow> w = 32) \<and> (curve = P384 \<longrightarrow> w = 48) \<and> (curve = P521 \<longrightarrow> w = 66) \<and>
             (length signature \<noteq> 2 * w \<longrightarrow>
                ECDSAVerifier_Verify (plat\<lparr>ecdsa_Verify := primitive\<rparr>) sv plaintext signature =
                  (False, Some (ErrSignatureLengthInvalid (2 * w) (length signature))) \<and>
                ECDSAVerifier_Verify plat sv plaintext signature =
                  (False, Some (ErrSignatureLengthInvalid (2 * w) (length signature)))) \<and>
             (length signature = 2 * w \<longrightarrow>
                (case GetHash plat alg plaintext of
                   Inl err \<Rightarrow> False
                 | Inr hash \<Rightarrow>
                     ECDSAVerifier_Verify plat sv plaintext signature =
                       (ecdsa_Verify plat (ecv_pubKey sv) hash
                          (big_SetBytes (take w signature))
                          (big_SetBytes (drop w signature)), None))))"
proof -
  from InitECDSAVerifier_Inr [OF assms]
  have alg: "ecv_algorithm sv = alg" and es: "alg = ES256 \<or> alg = ES384 \<or> alg = ES512"
    by simp_all
  note h = GetHash_ES [OF es]
  show ?thesis
    by (simp add: Let_def ECDSAVerifier_Verify_def alg h getSignatureLength_values
          mult.commute)
qed

theorem ECDSAVerifier_Verify_length_witness:
  "ECDSAVerifier_Verify example_platform
     \<lparr>ecv_algorithm = ES256, ecv_pubKey = \<lparr>ec_Curve = P256, ec_X = 0, ec_Y = 0\<rparr>\<rparr>
     ''msg'' ''abc''
   = (False, Some (ErrSignatureLengthInvalid 64 3)) \<and>
   ECDSAVerifier_Verify example_platform
     \<lparr>ecv_algorithm = ES256, ecv_pubKey = \<lparr>ec_Curve = P256, ec_X = 0, ec_Y = 0\<rparr>\<rparr>
     ''msg'' (replicate 31 (CHR 0x00) @ [CHR 0x01] @ replicate 31 (CHR 0x00) @ [CHR 0x02])
   = (True, None)"
proof -
  let ?k = "\<lparr>ec_Curve = P256, ec_X = 0, ec_Y = 0\<rparr>"
  let ?sv = "\<lparr>ecv_algorithm = ES256, ecv_pubKey = ?k\<rparr>"
  let ?sig = "replicate 31 (CHR 0x00) @ [CHR 0x01] @ replicate 31 (CHR 0x00) @ [CHR 0x02]"
  have init: "InitECDSAVerifier ES256 (Some ?k) = Inr ?sv"
    by (simp add: InitECDSAVerifier_def alg_defs)
  have h: "GetHash example_platform ES256 ''msg'' = Inr ''digest''"
    by (simp add: GetHash_def example_platform_def alg_defs)
  have v: "ecdsa_Verify example_platform ?k ''digest'' (Suc 0) 2"
    by (simp add: example_platform_def)
  from ECDSAVerifier_Verify_length [OF init, where signature = "''abc''" and plat = example_platform
      and primitive = "ecdsa_Verify example_platform" and plaintext = "''msg''"]
  have e1: "ECDSAVerifier_Verify example_platform ?sv ''msg'' ''abc''
      = (False, Some (ErrSignatureLengthInvalid 64 3))"
    by (simp add: Let_def getSignatureLength_values)
  from ECDSAVerifier_Verify_length [OF init, where signature = ?sig and plat = example_platform
      and primitive = "ecdsa_Verify example_platform" and plaintext = "''msg''"]
  have e2: "ECDSAVerifier_Verify example_platform ?sv ''msg'' ?sig
      = (ecdsa_Verify example_platform ?k ''digest'' (Suc 0) 2, None)"
    by (simp add: Let_def getSignatureLength_values h big_SetBytes_padded_1
          big_SetBytes_padded_2)
  from e1 e2 v show ?thesis by simp
qed

section \<open>Token generation\<close>

lemma InitRSAVerifier_none: "InitRSAVerifier None_alg key \<noteq> Inr v"
  by (simp add: InitRSAVerifier_def getHashAlgorithm_def alg_defs split: option.splits)

lemma InitECDSAVerifier_none: "InitECDSAVerifier None_alg key \<noteq> Inr v"
  by (simp add: InitECDSAVerifier_def alg_defs split: option.splits)

lemma InitEdDSAVerifier_none: "InitEdDSAVerifier None_alg key \<noteq> Inr v"
  by (simp add: InitEdDSAVerifier_def alg_defs split: option.splits)

lemma public_facade:
  assumes "NewJOSESignerVerifier plat alg key = Returns (Inr sv)" and "public_key key"
  shows "verifier sv \<noteq> None \<and> signer sv = None \<and> algorithm sv \<noteq> None_alg"
proof (cases key)
  case (KeyRSAPublic k)
  with assms(1) obtain v where v: "InitRSAVerifier alg k = Inr v"
      and sv: "sv = \<lparr>algorithm = alg, signer = None, verifier = Some (VerifierRSA v)\<rparr>"
    by (auto simp add: newFromRSAPublic_def split: sum.splits)
  from v have "alg \<noteq> None_alg" using InitRSAVerifier_none by blast
  with sv show ?thesis by simp
next
  case (KeyECDSAPublic k)
  with assms(1) obtain v where v: "InitECDSAVerifier alg k = Inr v"
      and sv: "sv = \<lparr>algorithm = alg, signer = None, verifier = Some (VerifierECDSA v)\<rparr>"
    by (auto simp add: newFromECDSAPublic_def split: sum.splits)
  from v have "alg \<noteq> None_alg" using InitECDSAVerifier_none by blast
  with sv show ?thesis by simp
next
  case (KeyEd25519Public k)
  with assms(1) obtain v where v: "InitEdDSAVerifier alg k = Inr v"
      and sv: "sv = \<lparr>algorithm = alg, signer = None, verifier = Some (VerifierEdDSA v)\<rparr>"
    by (auto simp add: newFromEd25519Public_def split: sum.splits)
  from v have "alg \<noteq> None_alg" using InitEdDSAVerifier_none by blast
  with sv show ?thesis by simp
qed (use assms(2) in simp_all)

text \<open>
  C6. The guard of \<open>GenerateToken\<close> looks at the verifier only. A facade built from a
  public key has a verifier, no signer and an algorithm other than \<open>none\<close>: the guard
  passes, and once header and body are serialised the call of \<open>Sign\<close> through the nil
  signer panics. The only errors returned are those of the serialisation.
\<close>

theorem GenerateToken_verify_only_facade:
  assumes "NewJOSESignerVerifier plat alg key = Returns (Inr sv)" and "public_key key"
  shows "verifier sv \<noteq> None \<and> signer sv = None \<and> algorithm sv \<noteq> None_alg \<and>
     GenerateToken plat' js sv header body =
       (case json_Marshal js header of
          Inl err \<Rightarrow> Returns (Inl err)
        | Inr joseHeader \<Rightarrow>
            (case json_Marshal js body of
               Inl err \<Rightarrow> Returns (Inl err)
             | Inr jwsPayload \<Rightarrow> Panics NilPointerDereference))"
  using public_facade [OF assms]
  by (auto simp add: GenerateToken_def Let_def split: sum.splits)

theorem GenerateToken_verify_only_facade_witness:
  "NewJOSESignerVerifier example_platform RS256 (KeyRSAPublic (Some \<lparr>rsa_N = 3233, rsa_E = 17\<rparr>))
     = Returns (Inr \<lparr>algorithm = RS256, signer = None,
         verifier = Some (VerifierRSA \<lparr>rsav_algorithm = RS256, rsav_hash = SHA256,
           rsav_pubKey = \<lparr>rsa_N = 3233, rsa_E = 17\<rparr>\<rparr>)\<rparr>) \<and>
   GenerateToken example_platform example_json
     \<lparr>algorithm = RS256, signer = None,
      verifier = Some (VerifierRSA \<lparr>rsav_algorithm = RS256, rsav_hash = SHA256,
        rsav_pubKey = \<lparr>rsa_N = 3233, rsa_E = 17\<rparr>\<rparr>)\<rparr>
     EmptyObject EmptyObject
     = Panics NilPointerDereference"
proof -
  let ?sv = "\<lparr>algorithm = RS256, signer = None,
      verifier = Some (VerifierRSA \<lparr>rsav_algorithm = RS256, rsav_hash = SHA256,
        rsav_pubKey = \<lparr>rsa_N = 3233, rsa_E = 17\<rparr>\<rparr>)\<rparr>"
  have new: "NewJOSESignerVerifier example_platform RS256
      (KeyRSAPublic (Some \<lparr>rsa_N = 3233, rsa_E = 17\<rparr>)) = Returns (Inr ?sv)"
    by (simp add: newFromRSAPublic_def InitRSAVerifier_def getHashAlgorithm_def alg_defs)
  have pub: "public_key (KeyRSAPublic (Some \<lparr>rsa_N = 3233, rsa_E = 17\<rparr>))"
    by simp
  have m: "json_Marshal example_json EmptyObject = Inr ''{}''"
    by (simp add: example_json_def)
  from GenerateToken_verify_only_facade [OF new pub, of example_platform example_json
      EmptyObject EmptyObject] new
  show ?thesis by (simp add: m)
qed

lemma Base64URLEncode_no_dot: "CHR ''.'' \<notin> set (Base64URLEncode b)"
  using Base64URLEncode_no_special [of b] by simp

lemma Base64URLEncode_empty_object: "Base64URLEncode ''{}'' = ''e30''"
  by code_simp

text \<open>
  C4 (as the code has it). A facade whose algorithm is \<open>none\<close> and whose verifier is
  set returns, for a header and a body that serialise, the two encoded segments joined by
  one dot: no signature segment and no second dot.
\<close>

theorem GenerateToken_none_one_dot:
  assumes "algorithm sv = None_alg" and "verifier sv \<noteq> None"
      and "json_Marshal js header = Inr joseHeader"
      and "json_Marshal js body = Inr jwsPayload"
  shows "GenerateToken plat js sv header body =
       Returns (Inr (Base64URLEncode joseHeader @ ''.'' @ Base64URLEncode jwsPayload)) \<and>
     count_list (Base64URLEncode joseHeader @ ''.'' @ Base64URLEncode jwsPayload) (CHR ''.'') = 1"
proof -
  have "count_list (Base64URLEncode joseHeader) (CHR ''.'') = 0"
    "count_list (Base64URLEncode jwsPayload) (CHR ''.'') = 0"
    by (simp_all add: count_list_0_iff Base64URLEncode_no_dot)
  then show ?thesis
    using assms by (simp add: GenerateToken_def Let_def appendWithDot_def)
qed

theorem GenerateToken_none_one_dot_witness:
  "GenerateToken example_platform example_json
     \<lparr>algorithm = None_alg, signer = None,
      verifier = Some (VerifierNone \<lparr>none_algorithm = [], none_key = []\<rparr>)\<rparr>
     EmptyObject EmptyObject = Returns (Inr ''e30.e30'')"
proof -
  let ?sv = "\<lparr>algorithm = None_alg, signer = None,
      verifier = Some (VerifierNone \<lparr>none_algorithm = [], none_key = []\<rparr>)\<rparr>"
  have m: "json_Marshal example_json EmptyObject = Inr ''{}''"
    by (simp add: example_json_def)
  have a: "algorithm ?sv = None_alg" and v: "verifier ?sv \<noteq> None" by simp_all
  from GenerateToken_none_one_dot [OF a v m m, of example_platform]
  show ?thesis by (simp add: Base64URLEncode_empty_object)
qed

theorem GenerateToken_none_counterexample:
  "NewInsecureJOSESignerVerifier None_alg =
     Inr \<lparr>algorithm = None_alg, signer = None, verifier = None\<rparr> \<and>
   GenerateToken example_platform example_json
     \<lparr>algorithm = None_alg, signer = None, verifier = None\<rparr> EmptyObject EmptyObject
     = Returns (Inl ErrNotConfiguredForSigning) \<and>
   GenerateToken example_platform example_json
     \<lparr>algorithm = None_alg, signer = None,
      verifier = Some (VerifierNone \<lparr>none_algorithm = [], none_key = []\<rparr>)\<rparr>
     EmptyObject EmptyObject = Returns (Inr ''e30.e30'') \<and>
   ''e30.e30'' \<noteq> ''e30.e30.''"
  by (simp add: NewInsecureJOSESignerVerifier_def GenerateToken_def example_json_def
        Base64URLEncode_empty_object appendWithDot_def Let_def)

section \<open>Verification of a token\<close>

lemma VerifySignature_claims_decoder:
  "VerifySignature plat (js\<lparr>json_Unmarshal_Claims := decode\<rparr>) sv rawToken =
   VerifySignature plat js sv rawToken"
proof -
  have h: "json_Unmarshal_Header (js\<lparr>json_Unmarshal_Claims := decode\<rparr>) =
      json_Unmarshal_Header js"
    by simp
  show ?thesis
    unfolding VerifySignature_def GetHeader_def h ..
qed

text \<open>
  C2 (as the code has it). When the signature check returns false or an error,
  \<open>VerifyToken\<close> returns no token at all (nil), false, and the error of the check or nil.
  The answer is the same whatever the claims decoder is and whatever the validation
  parameters are: the claims are neither parsed nor validated.
\<close>

theorem VerifyToken_signature_failure:
  assumes "VerifySignature plat js sv rawToken = Returns (tok, sigValid, err)"
      and "err \<noteq> None \<or> \<not> sigValid"
  shows "VerifyToken plat js sv rawToken validationCriteria = Returns (None, False, err) \<and>
     VerifyToken plat (js\<lparr>json_Unmarshal_Claims := decode\<rparr>) sv rawToken validationCriteria
       = Returns (None, False, err)"
  using assms by (auto simp add: VerifyToken_def VerifySignature_claims_decoder)

lemma Base64URLDecode_YWJj: "Base64URLDecode ''YWJj'' = Inr ''abc''"
  by code_simp

lemma json_begins_value_empty_object: "json_begins_value ''{}''"
  by (simp add: json_begins_value_def)

lemma example_ecdsa_VerifySignature:
  "VerifySignature example_platform example_json
     \<lparr>algorithm = ES256, signer = None,
      verifier = Some (VerifierECDSA
        \<lparr>ecv_algorithm = ES256, ecv_pubKey = \<lparr>ec_Curve = P256, ec_X = 0, ec_Y = 0\<rparr>\<rparr>)\<rparr>
     ''e30.e30.YWJj''
   = Returns (Some \<lparr>Alg = [], RegisteredHeader = Header_zero, RegisteredClaims = Claims_zero,
        RawToken = ''e30.e30.YWJj'', RawHeader = ''e30'', RawBody = ''e30'',
        RawSignature = ''YWJj'', DecodedHeader = ''{}'', DecodedBody = ''{}'',
        DecodedSignature = ''abc'', signatureValid = False, claimsValid = False\<rparr>,
      False, Some (ErrSignatureLengthInvalid 64 3))"
  by (simp add: VerifySignature_def GetRawTokenParts_def Base64URLDecode_e30
        Base64URLDecode_YWJj GetHeader_def example_json_def json_begins_value_empty_object
        ECDSAVerifier_Verify_def GetHash_def getSignatureLength_def appendWithDot_def
        Let_def alg_defs)

theorem VerifyToken_signature_failure_witness:
  "VerifyToken example_platform example_json
     \<lparr>algorithm = ES256, signer = None,
      verifier = Some (VerifierECDSA
        \<lparr>ecv_algorithm = ES256, ecv_pubKey = \<lparr>ec_Curve = P256, ec_X = 0, ec_Y = 0\<rparr>\<rparr>)\<rparr>
     ''e30.e30.YWJj'' (Some \<lparr>vc_JWTID = [], vc_Issuer = [], vc_Subject = [], vc_Audience = [],
        vc_Expiration = 0, vc_ExpirationLeeway = 0, vc_NotBefore = 0, vc_NotBeforeLeeway = 0\<rparr>)
   = Returns (None, False, Some (ErrSignatureLengthInvalid 64 3))"
  using VerifyToken_signature_failure [OF example_ecdsa_VerifySignature]
  by simp

theorem VerifyToken_signature_failure_counterexample:
  "VerifySignature example_platform example_json
     \<lparr>algorithm = ES256, signer = None,
      verifier = Some (VerifierECDSA
        \<lparr>ecv_algorithm = ES256, ecv_pubKey = \<lparr>ec_Curve = P256, ec_X = 0, ec_Y = 0\<rparr>\<rparr>)\<rparr>
     ''e30.e30.YWJj''
   = Returns (Some \<lparr>Alg = [], RegisteredHeader = Header_zero, RegisteredClaims = Claims_zero,
        RawToken = ''e30.e30.YWJj'', RawHeader = ''e30'', RawBody = ''e30'',
        RawSignature = ''YWJj'', DecodedHeader = ''{}'', DecodedBody = ''{}'',
        DecodedSignature = ''abc'', signatureValid = False, claimsValid = False\<rparr>,
      False, Some (ErrSignatureLengthInvalid 64 3)) \<and>
   VerifyToken example_platform example_json
     \<lparr>algorithm = ES256, signer = None,
      verifier = Some (VerifierECDSA
        \<lparr>ecv_algorithm = ES256, ecv_pubKey = \<lparr>ec_Curve = P256, ec_X = 0, ec_Y = 0\<rparr>\<rparr>)\<rparr>
     ''e30.e30.YWJj'' None
   = Returns (None, False, Some (ErrSignatureLengthInvalid 64 3))"
  by (simp add: VerifyToken_def example_ecdsa_VerifySignature)

section \<open>Generating a token and verifying it\<close>

lemma strings_Split_none: "sep \<notin> set a \<Longrightarrow> strings_Split a sep = [a]"
  by (induction a) auto

lemma strings_Split_first: "sep \<notin> set a \<Longrightarrow> strings_Split (a @ sep # rest) sep = a # strings_Split rest sep"
  by (induction a) auto

lemma GetRawTokenParts_two_segments:
  "GetRawTokenParts (appendWithDot (Base64URLEncode hj) (Base64URLEncode bj)) =
     Returns (Inr \<lparr>Alg = [], RegisteredHeader = Header_zero, RegisteredClaims = Claims_zero,
       RawToken = appendWithDot (Base64URLEncode hj) (Base64URLEncode bj),
       RawHeader = Base64URLEncode hj, RawBody = Base64URLEncode bj, RawSignature = [],
       DecodedHeader = hj, DecodedBody = bj, DecodedSignature = [],
       signatureValid = False, claimsValid = False\<rparr>)"
proof -
  have "strings_Split (appendWithDot (Base64URLEncode hj) (Base64URLEncode bj)) (CHR ''.'')
      = [Base64URLEncode hj, Base64URLEncode bj]"
    by (simp add: appendWithDot_def strings_Split_first strings_Split_none
          Base64URLEncode_no_dot)
  then show ?thesis
    by (simp add: GetRawTokenParts_def Let_def Base64URL_roundtrip)
qed

lemma GetRawTokenParts_three_segments:
  "GetRawTokenParts (appendWithDot (appendWithDot (Base64URLEncode hj) (Base64URLEncode bj))
       (Base64URLEncode sig)) =
     Returns (Inr \<lparr>Alg = [], RegisteredHeader = Header_zero, RegisteredClaims = Claims_zero,
       RawToken = appendWithDot (appendWithDot (Base64URLEncode hj) (Base64URLEncode bj))
         (Base64URLEncode sig),
       RawHeader = Base64URLEncode hj, RawBody = Base64URLEncode bj,
       RawSignature = Base64URLEncode sig,
       DecodedHeader = hj, DecodedBody = bj, DecodedSignature = sig,
       signatureValid = False, claimsValid = False\<rparr>)"
proof -
  have "strings_Split (appendWithDot (appendWithDot (Base64URLEncode hj) (Base64URLEncode bj))
       (Base64URLEncode sig)) (CHR ''.'')
      = [Base64URLEncode hj, Base64URLEncode bj, Base64URLEncode sig]"
    by (simp add: appendWithDot_def strings_Split_first strings_Split_none
          Base64URLEncode_no_dot)
  then show ?thesis
    by (simp add: GetRawTokenParts_def Let_def Base64URL_roundtrip)
qed

lemma GenerateToken_Inr:
  assumes "GenerateToken plat js sv header body = Returns (Inr raw)"
      and "json_Marshal js body = Inr bj"
  shows "\<exists>hj. raw = appendWithDot (Base64URLEncode hj) (Base64URLEncode bj) \<or>
     (\<exists>sig. raw = appendWithDot (appendWithDot (Base64URLEncode hj) (Base64URLEncode bj))
        (Base64URLEncode sig))"
  using assms
  by (auto simp add: GenerateToken_def Let_def
        split: if_splits sum.splits option.splits outcome.splits)

lemma generated_RawBody:
  assumes "GenerateToken plat js sv header body = Returns (Inr raw)"
      and "json_Marshal js body = Inr bj"
  shows "\<exists>tok. GetRawTokenParts raw = Returns (Inr tok) \<and> RawBody tok = Base64URLEncode bj"
  using GenerateToken_Inr [OF assms]
  by (auto simp add: GetRawTokenParts_two_segments GetRawTokenParts_three_segments)

lemma VerifySignature_Some:
  assumes "GetRawTokenParts raw = Returns (Inr tok)"
      and "VerifySignature plat js sv raw = Returns (t, v, None)"
  shows "\<exists>t'. t = Some t' \<and> RawBody t' = RawBody tok"
  using assms
  by (auto simp add: VerifySignature_def Let_def
        split: sum.splits option.splits prod.splits)

lemma encodeStd_30: "encodeStd ! 30 = CHR ''e''"
  by (simp add: encodeStd_def)

lemma Base64URLEncode_brace: "\<exists>t. Base64URLEncode (CHR ''{'' # rest) = CHR ''e'' # t"
proof -
  have "\<exists>t. EncodeToString (CHR ''{'' # rest) = CHR ''e'' # t"
  proof (cases rest)
    case Nil
    then show ?thesis by (simp add: encodeStd_30)
  next
    case (Cons b rest')
    then show ?thesis by (cases rest') (simp_all add: encodeStd_30)
  qed
  then show ?thesis
    unfolding Base64URLEncode_eq by (auto simp add: strings_Replace_def)
qed

lemma json_begins_value_e: "\<not> json_begins_value (CHR ''e'' # t)"
  by (simp add: json_begins_value_def)

text \<open>
  C1. \<open>GetClaims\<close> hands the decoder the body segment as it stands in the token, still
  base64url-encoded, and not the decoded body. The encoding of a JSON object begins with
  the letter \<open>e\<close>, which begins no JSON value. So with a decoder that rejects such text, as
  \<open>encoding/json\<close> does, a token that \<open>GenerateToken\<close> made from an object never passes
  \<open>VerifyToken\<close>: when its signature verifies, the result is the token, false and the
  decoder's syntax error.
\<close>

theorem VerifyToken_of_generated_token:
  assumes "GenerateToken plat js sv header body = Returns (Inr raw)"
      and "json_Marshal js body = Inr (CHR ''{'' # rest)"
      and "\<And>d. \<not> json_begins_value d \<Longrightarrow> json_Unmarshal_Claims js d = Inl JSONSyntaxError"
  shows "VerifyToken plat js sv raw validationCriteria =
     (case VerifySignature plat js sv raw of
        Panics p \<Rightarrow> Panics p
      | Returns (tok, sigValid, err) \<Rightarrow>
          if err \<noteq> None \<or> \<not> sigValid then Returns (None, False, err)
          else Returns (tok, False, Some JSONSyntaxError))"
proof (cases "VerifySignature plat js sv raw")
  case (Panics p)
  then show ?thesis by (simp add: VerifyToken_def)
next
  case (Returns res)
  obtain tok sigValid err where res: "res = (tok, sigValid, err)"
    by (cases res) auto
  show ?thesis
  proof (cases "err \<noteq> None \<or> \<not> sigValid")
    case True
    with Returns res show ?thesis by (auto simp add: VerifyToken_def)
  next
    case False
    then have ok: "err = None" "sigValid" by simp_all
    from generated_RawBody [OF assms(1,2)] obtain parsed where
      parsed: "GetRawTokenParts raw = Returns (Inr parsed)"
        "RawBody parsed = Base64URLEncode (CHR ''{'' # rest)"
      by blast
    from Returns res ok have "VerifySignature plat js sv raw = Returns (tok, sigValid, None)"
      by simp
    from VerifySignature_Some [OF parsed(1) this] parsed(2) obtain t' where
      t': "tok = Some t'" "RawBody t' = Base64URLEncode (CHR ''{'' # rest)"
      by auto
    from Base64URLEncode_brace [of rest] obtain t where
      "Base64URLEncode (CHR ''{'' # rest) = CHR ''e'' # t"
      by blast
    with t'(2) assms(3) [OF json_begins_value_e] have
      "GetClaims js t' = Inl JSONSyntaxError"
      by (simp add: GetClaims_def)
    with Returns res ok t'(1) show ?thesis
      by (simp add: VerifyToken_def)
  qed
qed

lemma Base64URLDecode_bWFj: "Base64URLDecode ''bWFj'' = Inr ''mac''"
  by code_simp

lemma Base64URLEncode_mac: "Base64URLEncode ''mac'' = ''bWFj''"
  by code_simp

lemma example_hmac_GenerateToken:
  "GenerateToken example_platform example_json
     \<lparr>algorithm = HS256,
      signer = Some (SignerHMAC \<lparr>hmac_algorithm = HS256, hmac_key = ''key''\<rparr>),
      verifier = Some (VerifierHMAC \<lparr>hmac_algorithm = HS256, hmac_key = ''key''\<rparr>)\<rparr>
     EmptyObject EmptyObject
   = Returns (Inr ''e30.e30.bWFj'')"
  by (simp add: GenerateToken_def example_json_def Base64URLEncode_empty_object
        appendWithDot_def Let_def HMACSignerVerifier_Sign_def HMACSignerVerifier_initHash_def
        example_platform_def Base64URLEncode_mac alg_defs)

lemma example_hmac_VerifySignature:
  "VerifySignature example_platform example_json
     \<lparr>algorithm = HS256,
      signer = Some (SignerHMAC \<lparr>hmac_algorithm = HS256, hmac_key = ''key''\<rparr>),
      verifier = Some (VerifierHMAC \<lparr>hmac_algorithm = HS256, hmac_key = ''key''\<rparr>)\<rparr>
     ''e30.e30.bWFj''
   = Returns (Some \<lparr>Alg = [], RegisteredHeader = Header_zero, RegisteredClaims = Claims_zero,
        RawToken = ''e30.e30.bWFj'', RawHeader = ''e30'', RawBody = ''e30'',
        RawSignature = ''bWFj'', DecodedHeader = ''{}'', DecodedBody = ''{}'',
        DecodedSignature = ''mac'', signatureValid = True, claimsValid = False\<rparr>,
      True, None)"
  by (simp add: VerifySignature_def GetRawTokenParts_def Base64URLDecode_e30
        Base64URLDecode_bWFj GetHeader_def example_json_def json_begins_value_empty_object
        HMACSignerVerifier_Verify_def HMACSignerVerifier_Sign_def
        HMACSignerVerifier_initHash_def example_platform_def appendWithDot_def
        Let_def alg_defs)

theorem VerifyToken_of_generated_token_witness:
  "newFromHMACBytes HS256 ''key'' =
     Inr \<lparr>algorithm = HS256,
      signer = Some (SignerHMAC \<lparr>hmac_algorithm = HS256, hmac_key = ''key''\<rparr>),
      verifier = Some (VerifierHMAC \<lparr>hmac_algorithm = HS256, hmac_key = ''key''\<rparr>)\<rparr> \<and>
   GenerateToken example_platform example_json
     \<lparr>algorithm = HS256,
      signer = Some (SignerHMAC \<lparr>hmac_algorithm = HS256, hmac_key = ''key''\<rparr>),
      verifier = Some (VerifierHMAC \<lparr>hmac_algorithm = HS256, hmac_key = ''key''\<rparr>)\<rparr>
     EmptyObject EmptyObject
   = Returns (Inr ''e30.e30.bWFj'') \<and>
   VerifyToken example_platform example_json
     \<lparr>algorithm = HS256,
      signer = Some (SignerHMAC \<lparr>hmac_algorithm = HS256, hmac_key = ''key''\<rparr>),
      verifier = Some (VerifierHMAC \<lparr>hmac_algorithm = HS256, hmac_key = ''key''\<rparr>)\<rparr>
     ''e30.e30.bWFj''
     (Some \<lparr>vc_JWTID = [], vc_Issuer = [], vc_Subject = [], vc_Audience = [],
        vc_Expiration = 0, vc_ExpirationLeeway = 0, vc_NotBefore = 0, vc_NotBeforeLeeway = 0\<rparr>)
   = Returns (Some \<lparr>Alg = [], RegisteredHeader = Header_zero, RegisteredClaims = Claims_zero,
        RawToken = ''e30.e30.bWFj'', RawHeader = ''e30'', RawBody = ''e30'',
        RawSignature = ''bWFj'', DecodedHeader = ''{}'', DecodedBody = ''{}'',
        DecodedSignature = ''mac'', signatureValid = True, claimsValid = False\<rparr>,
      False, Some JSONSyntaxError)"
proof -
  have new: "newFromHMACBytes HS256 ''key'' =
     Inr \<lparr>algorithm = HS256,
      signer = Some (SignerHMAC \<lparr>hmac_algorithm = HS256, hmac_key = ''key''\<rparr>),
      verifier = Some (VerifierHMAC \<lparr>hmac_algorithm = HS256, hmac_key = ''key''\<rparr>)\<rparr>"
    by (simp add: newFromHMACBytes_def InitHMACSignerVerifier_def alg_defs)
  have m: "json_Marshal example_json EmptyObject = Inr (CHR ''{'' # ''}'')"
    by (simp add: example_json_def)
  have rej: "json_Unmarshal_Claims example_json d = Inl JSONSyntaxError"
    if "\<not> json_begins_value d" for d
    using that by (simp add: example_json_def)
  from VerifyToken_of_generated_token [OF example_hmac_GenerateToken m rej]
    example_hmac_GenerateToken new
  show ?thesis
    by (simp add: example_hmac_VerifySignature)
qed

section \<open>A worked example of the base64url round trip\<close>

theorem Base64URL_decode_encode_witness:
  "Base64URLEncode ''{}'' = ''e30'' \<and> Base64URLDecode (Base64URLEncode ''{}'') = Inr ''{}''"
  using Base64URL_decode_encode [of "''{}''"]
  by (simp add: Base64URLEncode_empty_object)

end
